theory Spec2Isabelle
  imports Main
begin

section \<open>Errors and the outcome of a rule\<close>

text \<open>
  The three modules are rules of a build engine: each rule is an \<^verbatim>\<open>async\<close> function that
  asks the engine for values (\<^verbatim>\<open>await Get(...)\<close>) and either returns or raises. A raise
  is a value of \<open>error\<close>.
\<close>

type_synonym bytes = string

datatype error =
    KeyError
  | AssertionError
  | UnicodeDecodeError
  | ProcessExecutionFailure int bytes bytes
  | EngineError string

section \<open>options\_parsing.py\<close>

text \<open>
  \<^verbatim>\<open>OptionsBootstrapper\<close>, \<^verbatim>\<open>BuildConfiguration\<close> and \<^verbatim>\<open>Options\<close> are classes of other
  modules; the rules below only pass them around and compare them, so each is a value
  with structural equality.
\<close>

datatype OptionsBootstrapper = OptionsBootstrapper "string list"

datatype BuildConfiguration = BuildConfiguration "string list"

datatype Options = Options "(string \<times> string) list"

text \<open>
  \<^verbatim>\<open>OptionsBootstrapper.full_options(build_config)\<close> is defined elsewhere; it is a parameter
  of the model. It may raise (\<open>Inl\<close>), and \<open>Inr None\<close> is Python's \<^verbatim>\<open>None\<close>, the value the
  assertion of \<^verbatim>\<open>__post_init__\<close> guards against.
\<close>

type_synonym full_options_fn =
  "OptionsBootstrapper \<Rightarrow> BuildConfiguration \<Rightarrow> error + Options option"

text \<open>
  The frozen dataclass \<^verbatim>\<open>_Options\<close>: its two declared fields, and the slot in which
  \<^verbatim>\<open>memoized_property\<close> keeps the value of \<^verbatim>\<open>options\<close> (\<open>None\<close>: not computed yet).
\<close>

record private_Options =
  options_bootstrapper :: OptionsBootstrapper
  build_config :: BuildConfiguration
  memo :: "Options option option"

text \<open>
  Modelled from the spec: \<^verbatim>\<open>memoized_property\<close> of \<^verbatim>\<open>pants.util.memo\<close> is not among the
  sources. Following section 9 (a lazily initialised, memoized value) the first read
  computes the body and stores the result on the instance, and every later read returns
  the stored result. The natural number counts the calls of \<^verbatim>\<open>full_options\<close>.
\<close>

definition options ::
  "full_options_fn \<Rightarrow> private_Options \<times> nat \<Rightarrow> (error + Options option) \<times> private_Options \<times> nat" where
  "options full_options st =
     (case st of (self, calls) \<Rightarrow>
        (case memo self of
           Some v \<Rightarrow> (Inr v, self, calls)
         | None \<Rightarrow>
            (case full_options (options_bootstrapper self) (build_config self) of
               Inl e \<Rightarrow> (Inl e, self, calls + 1)
             | Inr v \<Rightarrow> (Inr v, self\<lparr>memo := Some v\<rparr>, calls + 1))))"

text \<open>\<^verbatim>\<open>__post_init__\<close>: \<^verbatim>\<open>assert self.options is not None\<close>.\<close>

definition post_init ::
  "full_options_fn \<Rightarrow> private_Options \<times> nat \<Rightarrow> (error + private_Options) \<times> nat" where
  "post_init full_options st =
     (case options full_options st of
        (Inl e, self', calls') \<Rightarrow> (Inl e, calls')
      | (Inr None, self', calls') \<Rightarrow> (Inl AssertionError, calls')
      | (Inr (Some v), self', calls') \<Rightarrow> (Inr self', calls'))"

text \<open>
  The constructor call \<^verbatim>\<open>_Options(options_bootstrapper, build_config)\<close>: the generated
  \<^verbatim>\<open>__init__\<close> stores the two fields, then runs \<^verbatim>\<open>__post_init__\<close>.
\<close>

definition new_Options ::
  "full_options_fn \<Rightarrow> OptionsBootstrapper \<Rightarrow> BuildConfiguration \<Rightarrow> nat
     \<Rightarrow> (error + private_Options) \<times> nat" where
  "new_Options full_options ob bc calls =
     post_init full_options
       (\<lparr>options_bootstrapper = ob, build_config = bc, memo = None\<rparr>, calls)"

text \<open>
  The \<^verbatim>\<open>__eq__\<close> that \<^verbatim>\<open>@dataclass\<close> generates compares the declared fields, in order; the
  memoized value is not a field.
\<close>

definition Options_eq :: "private_Options \<Rightarrow> private_Options \<Rightarrow> bool" where
  "Options_eq a b \<longleftrightarrow>
     (options_bootstrapper a, build_config a) = (options_bootstrapper b, build_config b)"

text \<open>
  \<^verbatim>\<open>SessionValues\<close> is a dictionary keyed by class; \<^verbatim>\<open>parse_options\<close> reads the entry of
  \<^verbatim>\<open>OptionsBootstrapper\<close>, and a missing key raises \<^verbatim>\<open>KeyError\<close>.
\<close>

datatype session_key = OptionsBootstrapper_key | Other_key string

type_synonym SessionValues = "session_key \<rightharpoonup> OptionsBootstrapper"

definition parse_options ::
  "full_options_fn \<Rightarrow> BuildConfiguration \<Rightarrow> SessionValues \<Rightarrow> nat
     \<Rightarrow> (error + private_Options) \<times> nat" where
  "parse_options full_options build_config' session_values calls =
     (case session_values OptionsBootstrapper_key of
        None \<Rightarrow> (Inl KeyError, calls)
      | Some options_bootstrapper' \<Rightarrow>
          new_Options full_options options_bootstrapper' build_config' calls)"

text \<open>A sequence of \<open>n\<close> reads of the attribute, one after the other, on the same instance.\<close>

fun reads ::
  "full_options_fn \<Rightarrow> nat \<Rightarrow> private_Options \<times> nat
     \<Rightarrow> (error + Options option) list \<times> private_Options \<times> nat" where
  "reads full_options 0 st = ([], st)"
| "reads full_options (Suc n) st =
     (case options full_options st of
        (r, st') \<Rightarrow> (case reads full_options n st' of (rs, st'') \<Rightarrow> (r # rs, st'')))"

section \<open>Values exchanged with the engine\<close>

text \<open>
  The rules of \<^verbatim>\<open>black/rules.py\<close> and \<^verbatim>\<open>pyupgrade/rules.py\<close> exchange values of classes that
  other modules define. Each class is a record of the attributes the two rules read or
  write; a class the rules only pass on is a datatype with no structure of interest.
\<close>

datatype Digest = Digest string

record Snapshot =
  digest :: Digest
  files :: "string list"
  dirs :: "string list"

type_synonym PythonSourceField = string

type_synonym InterpreterConstraintsField = "string list option"

type_synonym InterpreterConstraints = "string list"

record PythonSetup =
  interpreter_constraints :: InterpreterConstraints
  interpreter_universe :: "string list"

datatype PexRequest = PexRequest string InterpreterConstraints

datatype VenvPex = VenvPex string

datatype ConfigFilesRequest = ConfigFilesRequest "string option" "string list"

record SourceFiles =
  snapshot :: Snapshot
  files :: "string list"

record ConfigFiles =
  snapshot :: Snapshot

datatype LogLevel = TRACE | DEBUG | INFO | WARN | ERROR

text \<open>
  The keyword arguments of \<^verbatim>\<open>VenvPexProcess(...)\<close> that the two rules pass. A keyword a
  call leaves out is \<open>None\<close>: \<^verbatim>\<open>run_pyupgrade\<close> passes no \<^verbatim>\<open>concurrency_available\<close>.
\<close>

record VenvPexProcess =
  venv_pex :: VenvPex
  argv :: "string list"
  input_digest :: Digest
  output_files :: "string list"
  concurrency_available :: "nat option"
  description :: string
  level :: LogLevel

datatype Process = Process "string list" Digest "string list"

record ProcessResult =
  stdout :: bytes
  stderr :: bytes
  output_digest :: Digest

record FallibleProcessResult = ProcessResult +
  exit_code :: int

text \<open>
  Modelled from the spec: \<^verbatim>\<open>FmtResult\<close> of \<^verbatim>\<open>pants.core.goals.fmt\<close> is not among the sources.
  Section 3 gives its fields: original snapshot, final snapshot, captured stdout, captured
  stderr, plugin name, and the skipped flag. The rules build it with the original
  snapshot first and the output snapshot second.
\<close>

record FmtResult =
  original :: Snapshot
  final :: Snapshot
  stdout :: string
  stderr :: string
  formatter_name :: string
  skipped :: bool

definition EMPTY_SNAPSHOT :: Snapshot where
  "EMPTY_SNAPSHOT = \<lparr>digest = Digest [], files = [], dirs = []\<rparr>"

text \<open>
  Modelled from the spec: \<^verbatim>\<open>FmtResult.skip\<close> is not among the sources. Section 3: if
  skipped is true, original equals final and the streams are empty.
\<close>

definition FmtResult_skip :: "string \<Rightarrow> FmtResult" where
  "FmtResult_skip name =
     \<lparr>original = EMPTY_SNAPSHOT, final = EMPTY_SNAPSHOT, stdout = [], stderr = [],
      formatter_name = name, skipped = True\<rparr>"

text \<open>
  \<^verbatim>\<open>FmtRequest\<close>: the field sets and the optional result of the formatter that ran before.
\<close>

record 'fs FmtRequest =
  field_sets :: "'fs list"
  prior_formatter_result :: "Snapshot option"

text \<open>
  The subsystems. \<^verbatim>\<open>Black\<close> and \<^verbatim>\<open>PyUpgrade\<close> are Python tools: they share the option
  scope (the formatter's name), the skip flag, the extra arguments, the declared
  interpreter constraints, and \<^verbatim>\<open>to_pex_request\<close>, whose keyword
  \<^verbatim>\<open>interpreter_constraints\<close> is optional. \<^verbatim>\<open>Black\<close> adds the config path,
  \<^verbatim>\<open>options.is_default\<close> and \<^verbatim>\<open>config_request\<close>. The methods are defined in other modules and
  are fields here.
\<close>

record PythonToolBase =
  options_scope :: string
  skip :: bool
  args :: "string list"
  interpreter_constraints :: InterpreterConstraints
  to_pex_request :: "InterpreterConstraints option \<Rightarrow> PexRequest"

record Black = PythonToolBase +
  config :: "string option"
  is_default :: "string \<Rightarrow> bool"
  config_request :: "string list \<Rightarrow> ConfigFilesRequest"

type_synonym PyUpgrade = PythonToolBase

text \<open>
  What the engine answers to each kind of \<^verbatim>\<open>Get\<close>. Every answer may be a failure
  (no compatible runtime, source not found, conflicting merge, a crashed sandbox).
  \<open>get_FallibleProcessResult\<close> runs a process and reports its exit code.
\<close>

record engine =
  get_VenvPex :: "PexRequest \<Rightarrow> error + VenvPex"
  get_SourceFiles :: "PythonSourceField list \<Rightarrow> error + SourceFiles"
  get_ConfigFiles :: "ConfigFilesRequest \<Rightarrow> error + ConfigFiles"
  get_Digest :: "Digest list \<Rightarrow> error + Digest"
  get_Process :: "VenvPexProcess \<Rightarrow> error + Process"
  get_FallibleProcessResult :: "Process \<Rightarrow> error + FallibleProcessResult"
  get_Snapshot :: "Digest \<Rightarrow> error + Snapshot"

text \<open>
  The pure helpers of other modules that the rules call:
  \<^verbatim>\<open>InterpreterConstraints.create_from_compatibility_fields\<close>,
  \<^verbatim>\<open>InterpreterConstraints.requires_python38_or_newer\<close>, \<^verbatim>\<open>pluralize\<close>,
  \<^verbatim>\<open>strip_v2_chroot_path\<close> and \<^verbatim>\<open>bytes.decode\<close>. The last two raise on bytes that are
  not text.
\<close>

record library =
  create_from_compatibility_fields ::
    "InterpreterConstraintsField list \<Rightarrow> PythonSetup \<Rightarrow> InterpreterConstraints"
  requires_python38_or_newer :: "InterpreterConstraints \<Rightarrow> string list \<Rightarrow> bool"
  pluralize :: "nat \<Rightarrow> string \<Rightarrow> string"
  strip_v2_chroot_path :: "bytes \<Rightarrow> error + string"
  decode :: "bytes \<Rightarrow> error + string"

text \<open>The requests a rule issues, in the order it issues them.\<close>

datatype request =
    Get_VenvPex PexRequest
  | Get_SourceFiles "PythonSourceField list"
  | Get_ConfigFiles ConfigFilesRequest
  | Get_Digest "Digest list"
  | Get_Process VenvPexProcess
  | Get_ProcessResult Process
  | Get_FallibleProcessResult VenvPexProcess
  | Get_Snapshot Digest

text \<open>
  What a rule does: it returns a value or raises, and it has issued a list of requests
  by then.
\<close>

type_synonym 'a outcome = "(error + 'a) \<times> request list"

definition ret :: "'a \<Rightarrow> 'a outcome" where
  "ret x = (Inr x, [])"

definition lift :: "error + 'a \<Rightarrow> 'a outcome" where
  "lift r = (r, [])"

definition bind :: "'a outcome \<Rightarrow> ('a \<Rightarrow> 'b outcome) \<Rightarrow> 'b outcome" where
  "bind m f =
     (case m of
        (Inl e, log) \<Rightarrow> (Inl e, log)
      | (Inr x, log) \<Rightarrow> (case f x of (r, log') \<Rightarrow> (r, log @ log')))"

text \<open>
  \<^verbatim>\<open>MultiGet(a, b)\<close> issues both requests and joins on both; it raises when either fails.
\<close>

definition MultiGet :: "'a outcome \<Rightarrow> 'b outcome \<Rightarrow> ('a \<times> 'b) outcome" where
  "MultiGet a b =
     (case a of (ra, la) \<Rightarrow> case b of (rb, lb) \<Rightarrow>
        ((case ra of
            Inl e \<Rightarrow> Inl e
          | Inr x \<Rightarrow> (case rb of Inl e \<Rightarrow> Inl e | Inr y \<Rightarrow> Inr (x, y))),
         la @ lb))"

definition await_VenvPex :: "engine \<Rightarrow> PexRequest \<Rightarrow> VenvPex outcome" where
  "await_VenvPex eng r = (get_VenvPex eng r, [Get_VenvPex r])"

definition await_SourceFiles :: "engine \<Rightarrow> PythonSourceField list \<Rightarrow> SourceFiles outcome" where
  "await_SourceFiles eng r = (get_SourceFiles eng r, [Get_SourceFiles r])"

definition await_ConfigFiles :: "engine \<Rightarrow> ConfigFilesRequest \<Rightarrow> ConfigFiles outcome" where
  "await_ConfigFiles eng r = (get_ConfigFiles eng r, [Get_ConfigFiles r])"

definition await_MergeDigests :: "engine \<Rightarrow> Digest list \<Rightarrow> Digest outcome" where
  "await_MergeDigests eng r = (get_Digest eng r, [Get_Digest r])"

definition await_Process :: "engine \<Rightarrow> VenvPexProcess \<Rightarrow> Process outcome" where
  "await_Process eng r = (get_Process eng r, [Get_Process r])"

definition await_Snapshot :: "engine \<Rightarrow> Digest \<Rightarrow> Snapshot outcome" where
  "await_Snapshot eng r = (get_Snapshot eng r, [Get_Snapshot r])"

text \<open>
  Modelled from the spec: the rule of \<^verbatim>\<open>pants.engine.process\<close> that answers
  \<^verbatim>\<open>Get(ProcessResult, Process)\<close> is not among the sources. Sections 4.5 and 6: the
  process is run; a crashed run is a failure of its own, and a non-zero exit status is a
  fatal failure that carries the captured stdout and stderr.
\<close>

definition await_ProcessResult :: "engine \<Rightarrow> Process \<Rightarrow> ProcessResult outcome" where
  "await_ProcessResult eng p =
     ((case get_FallibleProcessResult eng p of
         Inl e \<Rightarrow> Inl e
       | Inr r \<Rightarrow>
           (if exit_code r \<noteq> 0
            then Inl (ProcessExecutionFailure (exit_code r) (ProcessResult.stdout r) (ProcessResult.stderr r))
            else Inr \<lparr>ProcessResult.stdout = ProcessResult.stdout r,
                      stderr = ProcessResult.stderr r,
                      output_digest = output_digest r\<rparr>)),
      [Get_ProcessResult p])"

text \<open>
  \<^verbatim>\<open>Get(FallibleProcessResult, VenvPexProcess(...))\<close>: the engine turns the request into a
  process and runs it; the exit code is reported, not raised.
\<close>

definition await_FallibleProcessResult ::
  "engine \<Rightarrow> VenvPexProcess \<Rightarrow> FallibleProcessResult outcome" where
  "await_FallibleProcessResult eng r =
     ((case get_Process eng r of
         Inl e \<Rightarrow> Inl e
       | Inr p \<Rightarrow> get_FallibleProcessResult eng p),
      [Get_FallibleProcessResult r])"

definition is_process_execution :: "request \<Rightarrow> bool" where
  "is_process_execution r =
     (case r of Get_ProcessResult p \<Rightarrow> True | Get_FallibleProcessResult p \<Rightarrow> True | _ \<Rightarrow> False)"

definition is_config_discovery :: "request \<Rightarrow> bool" where
  "is_config_discovery r = (case r of Get_ConfigFiles c \<Rightarrow> True | _ \<Rightarrow> False)"

definition is_merge :: "request \<Rightarrow> bool" where
  "is_merge r = (case r of Get_Digest c \<Rightarrow> True | _ \<Rightarrow> False)"

definition is_tool_request :: "request \<Rightarrow> bool" where
  "is_tool_request r = (case r of Get_VenvPex c \<Rightarrow> True | _ \<Rightarrow> False)"

section \<open>black/rules.py\<close>

record BlackFieldSet =
  source :: PythonSourceField
  interpreter_constraints :: InterpreterConstraintsField

record Setup =
  process :: Process
  original_snapshot :: Snapshot

definition setup_black ::
  "engine \<Rightarrow> library \<Rightarrow> BlackFieldSet FmtRequest \<Rightarrow> Black \<Rightarrow> PythonSetup \<Rightarrow> Setup outcome" where
  "setup_black eng lib request black python_setup =
     (let all_interpreter_constraints =
            create_from_compatibility_fields lib
              (map BlackFieldSet.interpreter_constraints (field_sets request)) python_setup;
          tool_interpreter_constraints =
            (if is_default black ''interpreter_constraints''
                \<and> requires_python38_or_newer lib all_interpreter_constraints
                    (interpreter_universe python_setup)
             then all_interpreter_constraints
             else PythonToolBase.interpreter_constraints black);
          black_pex_get =
            await_VenvPex eng (to_pex_request black (Some tool_interpreter_constraints));
          source_files_get =
            await_SourceFiles eng (map BlackFieldSet.source (field_sets request))
      in bind (MultiGet source_files_get black_pex_get) (\<lambda>(source_files, black_pex).
         let source_files_snapshot =
               (case prior_formatter_result request of
                  None \<Rightarrow> SourceFiles.snapshot source_files
                | Some prior \<Rightarrow> prior)
         in bind (await_ConfigFiles eng (config_request black (dirs source_files_snapshot)))
              (\<lambda>config_files.
            bind (await_MergeDigests eng
                    [digest source_files_snapshot, digest (ConfigFiles.snapshot config_files)])
              (\<lambda>input_digest.
            bind (await_Process eng
                    \<lparr>venv_pex = black_pex,
                     argv =
                       (case config black of
                          None \<Rightarrow> []
                        | Some c \<Rightarrow> if c = [] then [] else [''--config'', c])
                       @ [''-W'', ''{pants_concurrency}'']
                       @ args black
                       @ Snapshot.files source_files_snapshot,
                     input_digest = input_digest,
                     output_files = Snapshot.files source_files_snapshot,
                     concurrency_available = Some (length (field_sets request)),
                     description =
                       ''Run Black on '' @ pluralize lib (length (field_sets request)) ''file''
                         @ ''.'',
                     level = DEBUG\<rparr>)
              (\<lambda>process.
            ret \<lparr>process = process, original_snapshot = source_files_snapshot\<rparr>)))))"

text \<open>
  \<^verbatim>\<open>await Get(Setup, BlackRequest, request)\<close> runs \<^verbatim>\<open>setup_black\<close>, the rule that builds a
  \<^verbatim>\<open>Setup\<close> from a \<^verbatim>\<open>BlackRequest\<close>; the engine supplies the subsystems.
  \<^verbatim>\<open>request.name\<close> is \<^verbatim>\<open>Black.options_scope\<close>.
\<close>

definition black_fmt ::
  "engine \<Rightarrow> library \<Rightarrow> BlackFieldSet FmtRequest \<Rightarrow> Black \<Rightarrow> PythonSetup \<Rightarrow> FmtResult outcome" where
  "black_fmt eng lib request black python_setup =
     (if skip black then ret (FmtResult_skip (options_scope black))
      else
        bind (setup_black eng lib request black python_setup) (\<lambda>setup.
        bind (await_ProcessResult eng (process setup)) (\<lambda>result.
        bind (await_Snapshot eng (output_digest result)) (\<lambda>output_snapshot.
        bind (lift (strip_v2_chroot_path lib (ProcessResult.stdout result))) (\<lambda>out.
        bind (lift (strip_v2_chroot_path lib (ProcessResult.stderr result))) (\<lambda>err.
        ret \<lparr>original = Setup.original_snapshot setup,
             final = output_snapshot,
             stdout = out,
             stderr = err,
             formatter_name = options_scope black,
             skipped = False\<rparr>))))))"

section \<open>pyupgrade/rules.py\<close>

record PyUpgradeFieldSet =
  source :: PythonSourceField

record PyUpgradeResult =
  process_result :: FallibleProcessResult
  original_snapshot :: Snapshot

definition run_pyupgrade ::
  "engine \<Rightarrow> library \<Rightarrow> PyUpgradeFieldSet FmtRequest \<Rightarrow> PyUpgrade \<Rightarrow> PyUpgradeResult outcome" where
  "run_pyupgrade eng lib request pyupgrade =
     (let pyupgrade_pex_get = await_VenvPex eng (to_pex_request pyupgrade None);
          source_files_get =
            await_SourceFiles eng (map PyUpgradeFieldSet.source (field_sets request))
      in bind (MultiGet source_files_get pyupgrade_pex_get) (\<lambda>(source_files, pyupgrade_pex).
         let source_files_snapshot =
               (case prior_formatter_result request of
                  None \<Rightarrow> SourceFiles.snapshot source_files
                | Some prior \<Rightarrow> prior)
         in bind (await_FallibleProcessResult eng
                    \<lparr>venv_pex = pyupgrade_pex,
                     argv = args pyupgrade @ SourceFiles.files source_files,
                     input_digest = digest source_files_snapshot,
                     output_files = Snapshot.files source_files_snapshot,
                     concurrency_available = None,
                     description =
                       ''Run pyupgrade on ''
                         @ pluralize lib (length (field_sets request)) ''file'' @ ''.'',
                     level = DEBUG\<rparr>)
              (\<lambda>result.
            ret \<lparr>process_result = result, original_snapshot = source_files_snapshot\<rparr>)))"

definition pyupgrade_fmt ::
  "engine \<Rightarrow> library \<Rightarrow> PyUpgradeResult \<Rightarrow> PyUpgrade \<Rightarrow> FmtResult outcome" where
  "pyupgrade_fmt eng lib result pyupgrade =
     (if skip pyupgrade then ret (FmtResult_skip (options_scope pyupgrade))
      else
        bind (await_Snapshot eng (output_digest (process_result result))) (\<lambda>output_snapshot.
        bind (lift (decode lib (ProcessResult.stdout (process_result result)))) (\<lambda>out.
        bind (lift (decode lib (ProcessResult.stderr (process_result result)))) (\<lambda>err.
        ret \<lparr>original = PyUpgradeResult.original_snapshot result,
             final = output_snapshot,
             stdout = out,
             stderr = err,
             formatter_name = options_scope pyupgrade,
             skipped = False\<rparr>))))"

text \<open>
  Modelled from the spec: the rule engine is not among the sources. Section 1 describes it
  as resolving the dependencies of a rule: \<^verbatim>\<open>pyupgrade_fmt\<close> takes a \<^verbatim>\<open>PyUpgradeResult\<close> as a
  parameter, and the one rule that produces that value is \<^verbatim>\<open>run_pyupgrade\<close>, from the
  \<^verbatim>\<open>PyUpgradeRequest\<close>. So the engine answers a request for the \<^verbatim>\<open>FmtResult\<close> of a
  \<^verbatim>\<open>PyUpgradeRequest\<close> by running \<^verbatim>\<open>run_pyupgrade\<close> and then the body of \<^verbatim>\<open>pyupgrade_fmt\<close>.
\<close>

definition fmt_PyUpgradeRequest ::
  "engine \<Rightarrow> library \<Rightarrow> PyUpgradeFieldSet FmtRequest \<Rightarrow> PyUpgrade \<Rightarrow> FmtResult outcome" where
  "fmt_PyUpgradeRequest eng lib request pyupgrade =
     bind (run_pyupgrade eng lib request pyupgrade) (\<lambda>result.
       pyupgrade_fmt eng lib result pyupgrade)"

section \<open>A chain of two formatters\<close>

text \<open>
  A stage is a plugin applied to its field sets, awaiting the prior result of its request.
\<close>

type_synonym stage = "Snapshot option \<Rightarrow> FmtResult outcome"

definition black_stage ::
  "engine \<Rightarrow> library \<Rightarrow> Black \<Rightarrow> PythonSetup \<Rightarrow> BlackFieldSet list \<Rightarrow> stage" where
  "black_stage eng lib black python_setup fs prior =
     black_fmt eng lib \<lparr>field_sets = fs, prior_formatter_result = prior\<rparr> black python_setup"

definition pyupgrade_stage ::
  "engine \<Rightarrow> library \<Rightarrow> PyUpgrade \<Rightarrow> PyUpgradeFieldSet list \<Rightarrow> stage" where
  "pyupgrade_stage eng lib pyupgrade fs prior =
     fmt_PyUpgradeRequest eng lib \<lparr>field_sets = fs, prior_formatter_result = prior\<rparr> pyupgrade"






text \<open>
  Modelled from the spec: the code that runs the formatters one after the other and
  reports the result of the whole chain is not among the sources.
  \<^item> Section 3: the prior result snapshot of a request is non-null only when the plugin
    is not first in a chain; a skipped result has original equal to final and empty
    streams, so it carries no output of a formatter.
  \<^item> Section 4.5: the output snapshot of a plugin that is not the last becomes the prior
    result snapshot of the next plugin's request; the original snapshot reported in the
    final result is the snapshot the chain started with, not an intermediate one.
  \<^item> Section 7: after a failure the later stages do not run; the file set stays at the
    last snapshot a stage produced.
  \<^item> Section 8: the final result of A then B has the original of before A ran and the
    final of B's output, and each plugin has a sub-result of its own.
  So a skipped stage hands on the prior result it was given, and the final result is that
  of the last stage that ran, with the original of the first stage that ran. The spec
  says nothing of the streams and the name of the final result; they are the last
  stage's. The chain returns the final result and the two sub-results.
\<close>

definition chain_result :: "FmtResult \<Rightarrow> FmtResult \<Rightarrow> FmtResult" where
  "chain_result result_A result_B =
     (if skipped result_B then result_A
      else if skipped result_A then result_B
      else result_B\<lparr>original := original result_A\<rparr>)"

definition chain2 :: "stage \<Rightarrow> stage \<Rightarrow> (FmtResult \<times> FmtResult \<times> FmtResult) outcome" where
  "chain2 A B =
     bind (A None) (\<lambda>result_A.
     bind (B (if skipped result_A then None else Some (final result_A))) (\<lambda>result_B.
     ret (chain_result result_A result_B, result_A, result_B)))"

section \<open>The resolver of the spec, and the process specifications of a log\<close>

text \<open>
  The resolver of section 4.2, in the spec's words: the unit constraint is the
  intersection of the field sets' compatibility declarations; when the tool's constraint
  was left at its default and the unit constraint requires a version at or above the
  threshold, the unit constraint is returned, and the declared constraint otherwise.
  It is compared with what \<^verbatim>\<open>setup_black\<close> asks the engine for.
\<close>

definition resolve_runtime ::
  "library \<Rightarrow> PythonSetup \<Rightarrow> BlackFieldSet list \<Rightarrow> InterpreterConstraints \<Rightarrow> bool
     \<Rightarrow> InterpreterConstraints" where
  "resolve_runtime lib python_setup fs declared_tool_constraint tool_constraint_is_default =
     (let unit_constraint =
            create_from_compatibility_fields lib
              (map BlackFieldSet.interpreter_constraints fs) python_setup
      in if tool_constraint_is_default
            \<and> requires_python38_or_newer lib unit_constraint (interpreter_universe python_setup)
         then unit_constraint
         else declared_tool_constraint)"

text \<open>The process specifications among the requests of a log.\<close>

fun process_specs :: "request list \<Rightarrow> VenvPexProcess list" where
  "process_specs [] = []"
| "process_specs (Get_Process v # rs) = v # process_specs rs"
| "process_specs (Get_FallibleProcessResult v # rs) = v # process_specs rs"
| "process_specs (r # rs) = process_specs rs"

section \<open>Concrete values used to run the definitions\<close>

text \<open>
  An engine over one file, \<^verbatim>\<open>src/f.py\<close> with content \<^verbatim>\<open>x=1\<close>; a digest is written as the
  content it stands for. Black rewrites the file and exits with 0; pyupgrade rewrites it
  and exits with 1. Both tools print the path of the file inside the sandbox.
\<close>

definition test_engine :: engine where
  "test_engine =
     \<lparr>get_VenvPex = (\<lambda>r. case r of PexRequest name ics \<Rightarrow> Inr (VenvPex (name @ ''.pex''))),
      get_SourceFiles =
        (\<lambda>srcs. Inr \<lparr>SourceFiles.snapshot =
                         \<lparr>digest = Digest ''x=1'', files = srcs, dirs = [''src'']\<rparr>,
                       files = srcs\<rparr>),
      get_ConfigFiles =
        (\<lambda>r. Inr \<lparr>ConfigFiles.snapshot =
                      \<lparr>digest = Digest ''[tool.black]'', files = [''pyproject.toml''],
                       dirs = []\<rparr>\<rparr>),
      get_Digest = (\<lambda>ds. Inr (Digest (concat (map (\<lambda>d. case d of Digest s \<Rightarrow> s @ '';'') ds)))),
      get_Process =
        (\<lambda>v. case venv_pex v of
               VenvPex n \<Rightarrow> Inr (Process (n # argv v) (input_digest v) (output_files v))),
      get_FallibleProcessResult =
        (\<lambda>p. case p of Process av d outs \<Rightarrow>
           (case av of
              [] \<Rightarrow> Inl (EngineError ''runtime error'')
            | a # as \<Rightarrow>
                if a = ''black.pex''
                then Inr \<lparr>ProcessResult.stdout = [],
                          stderr = ''reformatted /tmp/process-execution7/src/f.py'',
                          output_digest = Digest ''x = 1'', exit_code = 0\<rparr>
                else Inr \<lparr>ProcessResult.stdout = ''Rewriting /tmp/process-execution7/src/f.py'',
                          stderr = [],
                          output_digest = Digest ''x: int = 1'', exit_code = 1\<rparr>)),
      get_Snapshot = (\<lambda>d. Inr \<lparr>digest = d, files = [''src/f.py''], dirs = [''src'']\<rparr>)\<rparr>"

text \<open>The same engine with a process that fails whatever it is asked to run.\<close>

definition failing_engine :: engine where
  "failing_engine =
     test_engine
       \<lparr>get_FallibleProcessResult :=
          (\<lambda>p. Inr \<lparr>ProcessResult.stdout = [],
                     stderr = ''error: cannot format /tmp/process-execution7/src/f.py'',
                     output_digest = Digest [], exit_code = 123\<rparr>)\<rparr>"

text \<open>The same engine with a sandbox that crashes: the process gives no result at all.\<close>

definition crashing_engine :: engine where
  "crashing_engine =
     test_engine\<lparr>get_FallibleProcessResult := (\<lambda>p. Inl (EngineError ''runtime error''))\<rparr>"

text \<open>
  Stand-ins for the helpers of other modules, enough to run the rules: the constraints of
  the field sets are collected, a constraint set requires 3.8 when each member is
  \<^verbatim>\<open>CPython>=3.8\<close>, the sandbox directory is a fixed one, and text is ASCII.
\<close>

definition sandbox_dir :: string where
  "sandbox_dir = ''/tmp/process-execution7/''"

fun without_sandbox_dir :: "nat \<Rightarrow> string \<Rightarrow> string" where
  "without_sandbox_dir k [] = []"
| "without_sandbox_dir k (c # cs) =
     (if 0 < k then without_sandbox_dir (k - 1) cs
      else if take (length sandbox_dir) (c # cs) = sandbox_dir
      then without_sandbox_dir (length sandbox_dir - 1) cs
      else c # without_sandbox_dir 0 cs)"

definition ascii_decode :: "bytes \<Rightarrow> error + string" where
  "ascii_decode b = (if list_ex digit7 b then Inl UnicodeDecodeError else Inr b)"

definition test_lib :: library where
  "test_lib =
     \<lparr>create_from_compatibility_fields =
        (\<lambda>fields python_setup.
           remdups (concat (map (\<lambda>f. case f of
                                        None \<Rightarrow> PythonSetup.interpreter_constraints python_setup
                                      | Some cs \<Rightarrow> cs) fields))),
      requires_python38_or_newer =
        (\<lambda>ics universe. ics \<noteq> [] \<and> list_all (\<lambda>c. c = ''CPython>=3.8'') ics),
      pluralize = (\<lambda>n item. if n = 1 then ''1 '' @ item else ''several '' @ item @ ''s''),
      strip_v2_chroot_path =
        (\<lambda>b. case ascii_decode b of Inl e \<Rightarrow> Inl e | Inr s \<Rightarrow> Inr (without_sandbox_dir 0 s)),
      decode = ascii_decode\<rparr>"

definition test_python_setup :: PythonSetup where
  "test_python_setup =
     \<lparr>PythonSetup.interpreter_constraints = [''CPython>=3.6''],
      interpreter_universe = [''2.7'', ''3.6'', ''3.7'', ''3.8'', ''3.9'']\<rparr>"

definition test_black :: Black where
  "test_black =
     \<lparr>options_scope = ''black'', skip = False, args = [''--quiet''],
      interpreter_constraints = [''CPython>=3.6.2''],
      to_pex_request =
        (\<lambda>ics. PexRequest ''black'' (case ics of None \<Rightarrow> [''CPython>=3.6.2''] | Some c \<Rightarrow> c)),
      config = Some ''pyproject.toml'',
      is_default = (\<lambda>name. True),
      config_request =
        (\<lambda>ds. ConfigFilesRequest (Some ''pyproject.toml'') (map (\<lambda>d. d @ ''/pyproject.toml'') ds))\<rparr>"

definition test_pyupgrade :: PyUpgrade where
  "test_pyupgrade =
     \<lparr>options_scope = ''pyupgrade'', skip = False, args = [''--py36-plus''],
      interpreter_constraints = [''CPython>=3.6''],
      to_pex_request =
        (\<lambda>ics. PexRequest ''pyupgrade'' (case ics of None \<Rightarrow> [''CPython>=3.6''] | Some c \<Rightarrow> c))\<rparr>"

definition test_black_field_sets :: "BlackFieldSet list" where
  "test_black_field_sets =
     [\<lparr>BlackFieldSet.source = ''src/f.py'', interpreter_constraints = Some [''CPython>=3.8'']\<rparr>]"

definition test_pyupgrade_field_sets :: "PyUpgradeFieldSet list" where
  "test_pyupgrade_field_sets = [\<lparr>PyUpgradeFieldSet.source = ''src/f.py''\<rparr>]"

text \<open>The snapshot an earlier formatter of a chain left behind.\<close>

definition test_prior :: Snapshot where
  "test_prior = \<lparr>digest = Digest ''x = 1'', files = [''src/f.py''], dirs = [''src'']\<rparr>"

text \<open>Values for the options rules.\<close>

definition test_full_options :: full_options_fn where
  "test_full_options ob bc =
     (case ob of OptionsBootstrapper as \<Rightarrow>
        (if as = [] then Inr None
         else if hd as = ''--bad'' then Inl (EngineError ''OptionsError'')
         else Inr (Some (Options (map (\<lambda>a. (a, ''true'')) as)))))"

definition other_full_options :: full_options_fn where
  "other_full_options ob bc = Inr (Some (Options []))"

section \<open>Properties of options\_parsing.py\<close>

lemma options_cached:
  "memo self = Some v \<Longrightarrow> options fo (self, c) = (Inr v, self, c)"
  by (simp add: options_def)

lemma reads_cached:
  "memo self = Some v \<Longrightarrow> reads fo n (self, c) = (replicate n (Inr v), self, c)"
  by (induction n) (simp_all add: options_cached)

lemma new_Options_Inr:
  assumes "new_Options fo ob bc calls = (Inr self, calls')"
  shows "\<exists>v. fo ob bc = Inr (Some v) \<and> calls' = calls + 1 \<and>
             self = \<lparr>options_bootstrapper = ob, build_config = bc, memo = Some (Some v)\<rparr>"
  using assms
  by (auto simp: new_Options_def post_init_def options_def
           split: sum.splits option.splits)

lemma new_Options_raises:
  "fo ob bc = Inl e \<Longrightarrow> new_Options fo ob bc calls = (Inl e, calls + 1)"
  by (simp add: new_Options_def post_init_def options_def)

lemma new_Options_assertion:
  "fo ob bc = Inr None \<Longrightarrow> new_Options fo ob bc calls = (Inl AssertionError, calls + 1)"
  by (simp add: new_Options_def post_init_def options_def)

text \<open>
  C9. Every \<^verbatim>\<open>_Options\<close> value has its options computed at construction: a constructor
  call that returns has called \<^verbatim>\<open>full_options\<close> exactly once and holds its (non-None)
  result in the memo slot, and any number of later reads of \<^verbatim>\<open>options\<close> return that
  value, leave the instance unchanged and call \<^verbatim>\<open>full_options\<close> no further time. When
  \<^verbatim>\<open>full_options\<close> raises or returns None the constructor raises: no value is produced.
\<close>

theorem options_eager_and_cached:
  "(new_Options fo ob bc calls = (Inr self, calls') \<longrightarrow>
      (\<exists>v. fo ob bc = Inr (Some v) \<and> memo self = Some (Some v) \<and> calls' = calls + 1 \<and>
           (\<forall>n c. reads fo n (self, c) = (replicate n (Inr (Some v)), self, c))))
   \<and> (fo ob bc = Inl e \<longrightarrow> fst (new_Options fo ob bc calls) = Inl e)
   \<and> (fo ob bc = Inr None \<longrightarrow> fst (new_Options fo ob bc calls) = Inl AssertionError)"
proof (intro conjI impI)
  assume ok: "new_Options fo ob bc calls = (Inr self, calls')"
  from new_Options_Inr [OF ok] obtain v where
    v: "fo ob bc = Inr (Some v)" "calls' = calls + 1"
       "self = \<lparr>options_bootstrapper = ob, build_config = bc, memo = Some (Some v)\<rparr>"
    by blast
  from v(3) have m: "memo self = Some (Some v)" by simp
  have "\<forall>n c. reads fo n (self, c) = (replicate n (Inr (Some v)), self, c)"
    using reads_cached [OF m] by blast
  with v(1,2) m
  show "\<exists>v. fo ob bc = Inr (Some v) \<and> memo self = Some (Some v) \<and> calls' = calls + 1 \<and>
            (\<forall>n c. reads fo n (self, c) = (replicate n (Inr (Some v)), self, c))"
    by blast
next
  assume "fo ob bc = Inl e"
  then show "fst (new_Options fo ob bc calls) = Inl e"
    by (simp add: new_Options_raises)
next
  assume "fo ob bc = Inr None"
  then show "fst (new_Options fo ob bc calls) = Inl AssertionError"
    by (simp add: new_Options_assertion)
qed

theorem options_eager_and_cached_witness:
  "new_Options test_full_options (OptionsBootstrapper [''-ldebug'']) (BuildConfiguration []) 0
     = (Inr \<lparr>options_bootstrapper = OptionsBootstrapper [''-ldebug''],
             build_config = BuildConfiguration [],
             memo = Some (Some (Options [(''-ldebug'', ''true'')]))\<rparr>, 1)
   \<and> reads test_full_options 3
       (\<lparr>options_bootstrapper = OptionsBootstrapper [''-ldebug''],
         build_config = BuildConfiguration [],
         memo = Some (Some (Options [(''-ldebug'', ''true'')]))\<rparr>, 1)
     = (replicate 3 (Inr (Some (Options [(''-ldebug'', ''true'')]))),
        \<lparr>options_bootstrapper = OptionsBootstrapper [''-ldebug''],
         build_config = BuildConfiguration [],
         memo = Some (Some (Options [(''-ldebug'', ''true'')]))\<rparr>, 1)
   \<and> fst (new_Options test_full_options (OptionsBootstrapper [''--bad'']) (BuildConfiguration []) 0)
     = Inl (EngineError ''OptionsError'')
   \<and> fst (new_Options test_full_options (OptionsBootstrapper []) (BuildConfiguration []) 0)
     = Inl AssertionError"
proof -
  let ?ob = "OptionsBootstrapper [''-ldebug'']"
  let ?bc = "BuildConfiguration []"
  let ?self = "\<lparr>options_bootstrapper = ?ob, build_config = ?bc,
                memo = Some (Some (Options [(''-ldebug'', ''true'')]))\<rparr>"
  have c: "new_Options test_full_options ?ob ?bc 0 = (Inr ?self, 1)"
    by (simp add: new_Options_def post_init_def options_def test_full_options_def)
  have bad: "test_full_options (OptionsBootstrapper [''--bad'']) ?bc = Inl (EngineError ''OptionsError'')"
    by (simp add: test_full_options_def)
  have none: "test_full_options (OptionsBootstrapper []) ?bc = Inr None"
    by (simp add: test_full_options_def)
  from options_eager_and_cached
         [where fo = test_full_options and ob = ?ob and bc = ?bc and calls = 0
            and self = ?self and calls' = 1] c
  have r: "reads test_full_options 3 (?self, 1)
             = (replicate 3 (Inr (Some (Options [(''-ldebug'', ''true'')]))), ?self, 1)"
    by (auto simp: test_full_options_def)
  from options_eager_and_cached
         [where fo = test_full_options and ob = "OptionsBootstrapper [''--bad'']" and bc = ?bc
            and e = "EngineError ''OptionsError''" and calls = 0] bad
  have b: "fst (new_Options test_full_options (OptionsBootstrapper [''--bad'']) ?bc 0)
             = Inl (EngineError ''OptionsError'')"
    by blast
  from options_eager_and_cached
         [where fo = test_full_options and ob = "OptionsBootstrapper []" and bc = ?bc
            and calls = 0] none
  have n: "fst (new_Options test_full_options (OptionsBootstrapper []) ?bc 0) = Inl AssertionError"
    by blast
  from c r b n show ?thesis by blast
qed

text \<open>
  C10. The identity of what \<^verbatim>\<open>parse_options\<close> returns is decided by its two construction
  inputs only: two runs that both return, on equal \<^verbatim>\<open>BuildConfiguration\<close> and on session
  values holding equal \<^verbatim>\<open>OptionsBootstrapper\<close>s, return values that compare equal under the
  dataclass equality, whatever \<^verbatim>\<open>full_options\<close> computed in either run.
\<close>

theorem parse_options_eq_by_inputs:
  assumes "parse_options fo bc sv c = (Inr a, c')"
    and "parse_options fo' bc sv' d = (Inr b, d')"
    and "sv OptionsBootstrapper_key = sv' OptionsBootstrapper_key"
  shows "Options_eq a b"
proof -
  from assms(1) obtain ob where ob: "sv OptionsBootstrapper_key = Some ob"
      and na: "new_Options fo ob bc c = (Inr a, c')"
    by (auto simp: parse_options_def split: option.splits)
  from assms(2,3) ob have nb: "new_Options fo' ob bc d = (Inr b, d')"
    by (auto simp: parse_options_def split: option.splits)
  from new_Options_Inr [OF na] have "options_bootstrapper a = ob \<and> build_config a = bc"
    by auto
  moreover from new_Options_Inr [OF nb] have "options_bootstrapper b = ob \<and> build_config b = bc"
    by auto
  ultimately show ?thesis by (simp add: Options_eq_def)
qed

theorem parse_options_eq_by_inputs_witness:
  "Options_eq
     \<lparr>options_bootstrapper = OptionsBootstrapper [''-ldebug''], build_config = BuildConfiguration [],
      memo = Some (Some (Options [(''-ldebug'', ''true'')]))\<rparr>
     \<lparr>options_bootstrapper = OptionsBootstrapper [''-ldebug''], build_config = BuildConfiguration [],
      memo = Some (Some (Options []))\<rparr>"
proof -
  let ?ob = "OptionsBootstrapper [''-ldebug'']"
  let ?bc = "BuildConfiguration []"
  let ?sv = "[OptionsBootstrapper_key \<mapsto> ?ob]"
  let ?sv' = "[Other_key ''x'' \<mapsto> OptionsBootstrapper [], OptionsBootstrapper_key \<mapsto> ?ob]"
  have 1: "parse_options test_full_options ?bc ?sv 0
             = (Inr \<lparr>options_bootstrapper = ?ob, build_config = ?bc,
                     memo = Some (Some (Options [(''-ldebug'', ''true'')]))\<rparr>, 1)"
    by (simp add: parse_options_def new_Options_def post_init_def options_def test_full_options_def)
  have 2: "parse_options other_full_options ?bc ?sv' 5
             = (Inr \<lparr>options_bootstrapper = ?ob, build_config = ?bc,
                     memo = Some (Some (Options []))\<rparr>, 6)"
    by (simp add: parse_options_def new_Options_def post_init_def options_def other_full_options_def)
  have 3: "?sv OptionsBootstrapper_key = ?sv' OptionsBootstrapper_key"
    by simp
  show ?thesis by (rule parse_options_eq_by_inputs [OF 1 2 3])
qed

section \<open>Properties of the formatter rules\<close>

subsection \<open>What a rule that returned has done\<close>

lemma bind_Inr:
  assumes "bind m f = (Inr y, log)"
  obtains x l1 l2 where "m = (Inr x, l1)" "f x = (Inr y, l2)" "log = l1 @ l2"
  using assms by (auto simp: bind_def split: prod.splits sum.splits)

lemma bind_Inr_eq: "m = (Inr x, l) \<Longrightarrow> bind m f = (fst (f x), l @ snd (f x))"
  by (simp add: bind_def split: prod.splits)

lemma snd_bind:
  "snd (bind m f) = (case fst m of Inl e \<Rightarrow> snd m | Inr x \<Rightarrow> snd m @ snd (f x))"
  by (auto simp: bind_def split: prod.splits sum.splits)

lemma snd_MultiGet: "snd (MultiGet a b) = snd a @ snd b"
  by (auto simp: MultiGet_def split: prod.splits)

lemma setup_black_Inr:
  assumes "setup_black eng lib request black ps = (Inr s, log)"
  obtains source_files black_pex config_files merged where
    "get_SourceFiles eng (map BlackFieldSet.source (field_sets request)) = Inr source_files"
    "get_VenvPex eng (to_pex_request black (Some
        (resolve_runtime lib ps (field_sets request) (PythonToolBase.interpreter_constraints black)
           (is_default black ''interpreter_constraints'')))) = Inr black_pex"
    "Setup.original_snapshot s =
       (case prior_formatter_result request of
          None \<Rightarrow> SourceFiles.snapshot source_files | Some prior \<Rightarrow> prior)"
    "get_ConfigFiles eng (config_request black (dirs (Setup.original_snapshot s)))
       = Inr config_files"
    "get_Digest eng
       [digest (Setup.original_snapshot s), digest (ConfigFiles.snapshot config_files)]
       = Inr merged"
    "get_Process eng
       \<lparr>venv_pex = black_pex,
        argv = (case config black of
                  None \<Rightarrow> [] | Some c \<Rightarrow> if c = [] then [] else [''--config'', c])
               @ [''-W'', ''{pants_concurrency}''] @ args black
               @ Snapshot.files (Setup.original_snapshot s),
        input_digest = merged,
        output_files = Snapshot.files (Setup.original_snapshot s),
        concurrency_available = Some (length (field_sets request)),
        description =
          ''Run Black on '' @ pluralize lib (length (field_sets request)) ''file'' @ ''.'',
        level = DEBUG\<rparr> = Inr (Setup.process s)"
    "log =
       [Get_SourceFiles (map BlackFieldSet.source (field_sets request)),
        Get_VenvPex (to_pex_request black (Some
          (resolve_runtime lib ps (field_sets request) (PythonToolBase.interpreter_constraints black)
             (is_default black ''interpreter_constraints'')))),
        Get_ConfigFiles (config_request black (dirs (Setup.original_snapshot s))),
        Get_Digest [digest (Setup.original_snapshot s), digest (ConfigFiles.snapshot config_files)],
        Get_Process
          \<lparr>venv_pex = black_pex,
           argv = (case config black of
                     None \<Rightarrow> [] | Some c \<Rightarrow> if c = [] then [] else [''--config'', c])
                  @ [''-W'', ''{pants_concurrency}''] @ args black
                  @ Snapshot.files (Setup.original_snapshot s),
           input_digest = merged,
           output_files = Snapshot.files (Setup.original_snapshot s),
           concurrency_available = Some (length (field_sets request)),
           description =
             ''Run Black on '' @ pluralize lib (length (field_sets request)) ''file'' @ ''.'',
           level = DEBUG\<rparr>]"
  using assms
  unfolding setup_black_def resolve_runtime_def Let_def
  by (auto simp: bind_def MultiGet_def await_VenvPex_def await_SourceFiles_def
        await_ConfigFiles_def await_MergeDigests_def await_Process_def ret_def
      split: sum.splits prod.splits)

lemma run_pyupgrade_Inr:
  assumes "run_pyupgrade eng lib request pyupgrade = (Inr r, log)"
  obtains source_files pyupgrade_pex p where
    "get_SourceFiles eng (map PyUpgradeFieldSet.source (field_sets request)) = Inr source_files"
    "get_VenvPex eng (to_pex_request pyupgrade None) = Inr pyupgrade_pex"
    "PyUpgradeResult.original_snapshot r =
       (case prior_formatter_result request of
          None \<Rightarrow> SourceFiles.snapshot source_files | Some prior \<Rightarrow> prior)"
    "get_Process eng
       \<lparr>venv_pex = pyupgrade_pex,
        argv = args pyupgrade @ SourceFiles.files source_files,
        input_digest = digest (PyUpgradeResult.original_snapshot r),
        output_files = Snapshot.files (PyUpgradeResult.original_snapshot r),
        concurrency_available = None,
        description =
          ''Run pyupgrade on '' @ pluralize lib (length (field_sets request)) ''file'' @ ''.'',
        level = DEBUG\<rparr> = Inr p"
    "get_FallibleProcessResult eng p = Inr (process_result r)"
    "log =
       [Get_SourceFiles (map PyUpgradeFieldSet.source (field_sets request)),
        Get_VenvPex (to_pex_request pyupgrade None),
        Get_FallibleProcessResult
          \<lparr>venv_pex = pyupgrade_pex,
           argv = args pyupgrade @ SourceFiles.files source_files,
           input_digest = digest (PyUpgradeResult.original_snapshot r),
           output_files = Snapshot.files (PyUpgradeResult.original_snapshot r),
           concurrency_available = None,
           description =
             ''Run pyupgrade on '' @ pluralize lib (length (field_sets request)) ''file'' @ ''.'',
           level = DEBUG\<rparr>]"
  using assms
  unfolding run_pyupgrade_def Let_def
  by (auto simp: bind_def MultiGet_def await_VenvPex_def await_SourceFiles_def
        await_FallibleProcessResult_def ret_def
      split: sum.splits prod.splits)

lemma black_fmt_Inr:
  assumes "black_fmt eng lib request black ps = (Inr res, log)" and "\<not> skip black"
  obtains s l raw where
    "setup_black eng lib request black ps = (Inr s, l)"
    "get_FallibleProcessResult eng (Setup.process s) = Inr raw"
    "exit_code raw = 0"
    "get_Snapshot eng (output_digest raw) = Inr (final res)"
    "strip_v2_chroot_path lib (ProcessResult.stdout raw) = Inr (FmtResult.stdout res)"
    "strip_v2_chroot_path lib (ProcessResult.stderr raw) = Inr (FmtResult.stderr res)"
    "original res = Setup.original_snapshot s"
    "formatter_name res = options_scope black"
    "\<not> skipped res"
    "log = l @ [Get_ProcessResult (Setup.process s), Get_Snapshot (output_digest raw)]"
proof -
  let ?F = "\<lambda>setup.
        bind (await_ProcessResult eng (Setup.process setup)) (\<lambda>result.
        bind (await_Snapshot eng (output_digest result)) (\<lambda>output_snapshot.
        bind (lift (strip_v2_chroot_path lib (ProcessResult.stdout result))) (\<lambda>out.
        bind (lift (strip_v2_chroot_path lib (ProcessResult.stderr result))) (\<lambda>err.
        ret \<lparr>original = Setup.original_snapshot setup,
             final = output_snapshot,
             stdout = out,
             stderr = err,
             formatter_name = options_scope black,
             skipped = False\<rparr>))))"
  from assms have "bind (setup_black eng lib request black ps) ?F = (Inr res, log)"
    by (simp add: black_fmt_def)
  then obtain s l l' where s: "setup_black eng lib request black ps = (Inr s, l)"
    and rest: "?F s = (Inr res, l')" and log: "log = l @ l'"
    by (rule bind_Inr)
  from rest obtain raw where
    "get_FallibleProcessResult eng (Setup.process s) = Inr raw"
    "exit_code raw = 0"
    "get_Snapshot eng (output_digest raw) = Inr (final res)"
    "strip_v2_chroot_path lib (ProcessResult.stdout raw) = Inr (FmtResult.stdout res)"
    "strip_v2_chroot_path lib (ProcessResult.stderr raw) = Inr (FmtResult.stderr res)"
    "original res = Setup.original_snapshot s"
    "formatter_name res = options_scope black"
    "\<not> skipped res"
    "l' = [Get_ProcessResult (Setup.process s), Get_Snapshot (output_digest raw)]"
    by (auto simp: bind_def await_ProcessResult_def await_Snapshot_def lift_def ret_def
          split: sum.splits prod.splits if_splits)
  with s log that show thesis by blast
qed

lemma pyupgrade_fmt_Inr:
  assumes "pyupgrade_fmt eng lib r pyupgrade = (Inr res, log)" and "\<not> skip pyupgrade"
  shows "get_Snapshot eng (output_digest (process_result r)) = Inr (final res)
       \<and> decode lib (ProcessResult.stdout (process_result r)) = Inr (FmtResult.stdout res)
       \<and> decode lib (ProcessResult.stderr (process_result r)) = Inr (FmtResult.stderr res)
       \<and> original res = PyUpgradeResult.original_snapshot r
       \<and> formatter_name res = options_scope pyupgrade
       \<and> \<not> skipped res
       \<and> log = [Get_Snapshot (output_digest (process_result r))]"
  using assms
  by (auto simp: pyupgrade_fmt_def bind_def await_Snapshot_def lift_def ret_def
        split: sum.splits prod.splits if_splits)

lemma fmt_PyUpgradeRequest_Inr:
  assumes "fmt_PyUpgradeRequest eng lib request pyupgrade = (Inr res, log)"
  obtains r l l' where
    "run_pyupgrade eng lib request pyupgrade = (Inr r, l)"
    "pyupgrade_fmt eng lib r pyupgrade = (Inr res, l')"
    "log = l @ l'"
  using assms unfolding fmt_PyUpgradeRequest_def by (erule bind_Inr)

lemmas test_defs = test_engine_def test_lib_def test_black_def test_pyupgrade_def
  test_black_field_sets_def test_pyupgrade_field_sets_def test_python_setup_def test_prior_def
  failing_engine_def crashing_engine_def ascii_decode_def sandbox_dir_def

lemmas rule_defs = setup_black_def black_fmt_def run_pyupgrade_def pyupgrade_fmt_def
  fmt_PyUpgradeRequest_def bind_def MultiGet_def ret_def lift_def await_VenvPex_def
  await_SourceFiles_def await_ConfigFiles_def await_MergeDigests_def await_Process_def
  await_Snapshot_def await_ProcessResult_def await_FallibleProcessResult_def
  black_stage_def pyupgrade_stage_def chain2_def chain_result_def FmtResult_skip_def
  EMPTY_SNAPSHOT_def

subsection \<open>The runs of the concrete values\<close>

lemma test_setup_black_prior:
  "setup_black test_engine test_lib
     \<lparr>field_sets = test_black_field_sets, prior_formatter_result = Some test_prior\<rparr>
     test_black test_python_setup
   = (Inr \<lparr>process =
             Process [''black.pex'', ''--config'', ''pyproject.toml'', ''-W'',
                      ''{pants_concurrency}'', ''--quiet'', ''src/f.py'']
               (Digest ''x = 1;[tool.black];'') [''src/f.py''],
           original_snapshot = test_prior\<rparr>,
      [Get_SourceFiles [''src/f.py''],
       Get_VenvPex (PexRequest ''black'' [''CPython>=3.8'']),
       Get_ConfigFiles (ConfigFilesRequest (Some ''pyproject.toml'') [''src/pyproject.toml'']),
       Get_Digest [Digest ''x = 1'', Digest ''[tool.black]''],
       Get_Process
         \<lparr>venv_pex = VenvPex ''black.pex'',
          argv = [''--config'', ''pyproject.toml'', ''-W'', ''{pants_concurrency}'',
                  ''--quiet'', ''src/f.py''],
          input_digest = Digest ''x = 1;[tool.black];'',
          output_files = [''src/f.py''], concurrency_available = Some 1,
          description = ''Run Black on 1 file.'', level = DEBUG\<rparr>])"
  by (simp add: test_defs rule_defs Let_def)

lemma test_run_pyupgrade_prior:
  "run_pyupgrade test_engine test_lib
     \<lparr>field_sets = test_pyupgrade_field_sets, prior_formatter_result = Some test_prior\<rparr>
     test_pyupgrade
   = (Inr \<lparr>process_result =
             \<lparr>ProcessResult.stdout = ''Rewriting /tmp/process-execution7/src/f.py'',
              stderr = [], output_digest = Digest ''x: int = 1'', exit_code = 1\<rparr>,
           original_snapshot = test_prior\<rparr>,
      [Get_SourceFiles [''src/f.py''],
       Get_VenvPex (PexRequest ''pyupgrade'' [''CPython>=3.6'']),
       Get_FallibleProcessResult
         \<lparr>venv_pex = VenvPex ''pyupgrade.pex'',
          argv = [''--py36-plus'', ''src/f.py''],
          input_digest = Digest ''x = 1'', output_files = [''src/f.py''],
          concurrency_available = None,
          description = ''Run pyupgrade on 1 file.'', level = DEBUG\<rparr>])"
  by (simp add: test_defs rule_defs Let_def)

lemma test_run_pyupgrade_fresh:
  "run_pyupgrade test_engine test_lib
     \<lparr>field_sets = test_pyupgrade_field_sets, prior_formatter_result = None\<rparr>
     test_pyupgrade
   = (Inr \<lparr>process_result =
             \<lparr>ProcessResult.stdout = ''Rewriting /tmp/process-execution7/src/f.py'',
              stderr = [], output_digest = Digest ''x: int = 1'', exit_code = 1\<rparr>,
           original_snapshot =
             \<lparr>digest = Digest ''x=1'', files = [''src/f.py''], dirs = [''src'']\<rparr>\<rparr>,
      [Get_SourceFiles [''src/f.py''],
       Get_VenvPex (PexRequest ''pyupgrade'' [''CPython>=3.6'']),
       Get_FallibleProcessResult
         \<lparr>venv_pex = VenvPex ''pyupgrade.pex'',
          argv = [''--py36-plus'', ''src/f.py''],
          input_digest = Digest ''x=1'', output_files = [''src/f.py''],
          concurrency_available = None,
          description = ''Run pyupgrade on 1 file.'', level = DEBUG\<rparr>])"
  by (simp add: test_defs rule_defs Let_def)

lemma test_fmt_pyupgrade_fresh:
  "fmt_PyUpgradeRequest test_engine test_lib
     \<lparr>field_sets = test_pyupgrade_field_sets, prior_formatter_result = None\<rparr>
     test_pyupgrade
   = (Inr \<lparr>original = \<lparr>digest = Digest ''x=1'', files = [''src/f.py''], dirs = [''src'']\<rparr>,
           final = \<lparr>digest = Digest ''x: int = 1'', files = [''src/f.py''], dirs = [''src'']\<rparr>,
           stdout = ''Rewriting /tmp/process-execution7/src/f.py'',
           stderr = [], formatter_name = ''pyupgrade'', skipped = False\<rparr>,
      [Get_SourceFiles [''src/f.py''],
       Get_VenvPex (PexRequest ''pyupgrade'' [''CPython>=3.6'']),
       Get_FallibleProcessResult
         \<lparr>venv_pex = VenvPex ''pyupgrade.pex'',
          argv = [''--py36-plus'', ''src/f.py''],
          input_digest = Digest ''x=1'', output_files = [''src/f.py''],
          concurrency_available = None,
          description = ''Run pyupgrade on 1 file.'', level = DEBUG\<rparr>,
       Get_Snapshot (Digest ''x: int = 1'')])"
  unfolding fmt_PyUpgradeRequest_def
  by (simp add: bind_Inr_eq [OF test_run_pyupgrade_fresh])
     (simp add: test_defs pyupgrade_fmt_def bind_def ret_def lift_def await_Snapshot_def)

lemma test_black_fmt_fresh:
  "black_fmt test_engine test_lib
     \<lparr>field_sets = test_black_field_sets, prior_formatter_result = None\<rparr>
     test_black test_python_setup
   = (Inr \<lparr>original = \<lparr>digest = Digest ''x=1'', files = [''src/f.py''], dirs = [''src'']\<rparr>,
           final = \<lparr>digest = Digest ''x = 1'', files = [''src/f.py''], dirs = [''src'']\<rparr>,
           stdout = [], stderr = ''reformatted src/f.py'',
           formatter_name = ''black'', skipped = False\<rparr>,
      [Get_SourceFiles [''src/f.py''],
       Get_VenvPex (PexRequest ''black'' [''CPython>=3.8'']),
       Get_ConfigFiles (ConfigFilesRequest (Some ''pyproject.toml'') [''src/pyproject.toml'']),
       Get_Digest [Digest ''x=1'', Digest ''[tool.black]''],
       Get_Process
         \<lparr>venv_pex = VenvPex ''black.pex'',
          argv = [''--config'', ''pyproject.toml'', ''-W'', ''{pants_concurrency}'',
                  ''--quiet'', ''src/f.py''],
          input_digest = Digest ''x=1;[tool.black];'',
          output_files = [''src/f.py''], concurrency_available = Some 1,
          description = ''Run Black on 1 file.'', level = DEBUG\<rparr>,
       Get_ProcessResult
         (Process [''black.pex'', ''--config'', ''pyproject.toml'', ''-W'',
                   ''{pants_concurrency}'', ''--quiet'', ''src/f.py'']
            (Digest ''x=1;[tool.black];'') [''src/f.py'']),
       Get_Snapshot (Digest ''x = 1'')])"
  by (simp add: test_defs rule_defs Let_def)


subsection \<open>The skip flag\<close>

lemma black_fmt_skip:
  "skip black \<Longrightarrow>
     black_fmt eng lib request black ps = (Inr (FmtResult_skip (options_scope black)), [])"
  by (simp add: black_fmt_def ret_def)

lemma pyupgrade_skip_after_process:
  assumes "skip pyupgrade"
    and "fmt_PyUpgradeRequest eng lib request pyupgrade = (Inr res, log)"
  shows "res = FmtResult_skip (options_scope pyupgrade) \<and> list_ex is_process_execution log"
proof -
  from assms(2) obtain r l l' where r: "run_pyupgrade eng lib request pyupgrade = (Inr r, l)"
    and f: "pyupgrade_fmt eng lib r pyupgrade = (Inr res, l')" and log: "log = l @ l'"
    by (rule fmt_PyUpgradeRequest_Inr)
  from f assms(1) have "res = FmtResult_skip (options_scope pyupgrade)"
    by (simp add: pyupgrade_fmt_def ret_def)
  moreover from r have "list_ex is_process_execution l"
    by (rule run_pyupgrade_Inr) (simp add: is_process_execution_def)
  ultimately show ?thesis using log by simp
qed

text \<open>
  C1. With the global skip flag set, a plugin returns a skipped \<^verbatim>\<open>FmtResult\<close> and no
  process-execution request has been issued. \<^verbatim>\<open>black_fmt\<close> does so (\<open>black_fmt_skip\<close>). A
  \<^verbatim>\<open>PyUpgradeRequest\<close> with the flag set does not: \<^verbatim>\<open>pyupgrade_fmt\<close> tests the flag in its
  body, after the engine has run \<^verbatim>\<open>run_pyupgrade\<close> for its parameter, so the tool has been
  materialised, the sources captured and the process run by then. The run below is the
  request for one file with \<^verbatim>\<open>skip\<close> set.
\<close>

theorem pyupgrade_skip_runs_process:
  "fmt_PyUpgradeRequest test_engine test_lib
     \<lparr>field_sets = test_pyupgrade_field_sets, prior_formatter_result = None\<rparr>
     (test_pyupgrade\<lparr>skip := True\<rparr>)
   = (Inr (FmtResult_skip ''pyupgrade''),
      [Get_SourceFiles [''src/f.py''],
       Get_VenvPex (PexRequest ''pyupgrade'' [''CPython>=3.6'']),
       Get_FallibleProcessResult
         \<lparr>venv_pex = VenvPex ''pyupgrade.pex'',
          argv = [''--py36-plus'', ''src/f.py''],
          input_digest = Digest ''x=1'', output_files = [''src/f.py''],
          concurrency_available = None,
          description = ''Run pyupgrade on 1 file.'', level = DEBUG\<rparr>])
   \<and> list_ex is_process_execution
       (snd (fmt_PyUpgradeRequest test_engine test_lib
          \<lparr>field_sets = test_pyupgrade_field_sets, prior_formatter_result = None\<rparr>
          (test_pyupgrade\<lparr>skip := True\<rparr>)))"
proof -
  have run: "fmt_PyUpgradeRequest test_engine test_lib
     \<lparr>field_sets = test_pyupgrade_field_sets, prior_formatter_result = None\<rparr>
     (test_pyupgrade\<lparr>skip := True\<rparr>)
   = (Inr (FmtResult_skip ''pyupgrade''),
      [Get_SourceFiles [''src/f.py''],
       Get_VenvPex (PexRequest ''pyupgrade'' [''CPython>=3.6'']),
       Get_FallibleProcessResult
         \<lparr>venv_pex = VenvPex ''pyupgrade.pex'',
          argv = [''--py36-plus'', ''src/f.py''],
          input_digest = Digest ''x=1'', output_files = [''src/f.py''],
          concurrency_available = None,
          description = ''Run pyupgrade on 1 file.'', level = DEBUG\<rparr>])"
    by (simp add: test_defs rule_defs Let_def)
  show ?thesis
    unfolding run by (simp add: is_process_execution_def)
qed

subsection \<open>The runtime of the tool\<close>

lemma tool_requests_setup_black:
  "filter is_tool_request (snd (setup_black eng lib request black ps)) =
     [Get_VenvPex (to_pex_request black (Some
        (resolve_runtime lib ps (field_sets request) (PythonToolBase.interpreter_constraints black)
           (is_default black ''interpreter_constraints''))))]"
  by (simp add: setup_black_def resolve_runtime_def Let_def snd_bind snd_MultiGet
        await_VenvPex_def await_SourceFiles_def await_ConfigFiles_def await_MergeDigests_def
        await_Process_def ret_def is_tool_request_def
      split: sum.splits prod.splits)

text \<open>
  C2. The one tool-materialisation request of \<^verbatim>\<open>setup_black\<close>, issued on every run, asks
  for the constraint that the resolver of section 4.2 returns. That constraint is the
  unit constraint (the field sets' compatibility declarations, combined) when the option
  \<^verbatim>\<open>interpreter_constraints\<close> was left at its default and the unit constraint requires
  Python 3.8 or newer; in every other case, in particular whenever the option was
  configured, it is the declared constraint of the tool, whatever the unit constraint.
\<close>

theorem black_runtime_resolution:
  "filter is_tool_request (snd (setup_black eng lib request black ps)) =
     [Get_VenvPex (to_pex_request black (Some
        (resolve_runtime lib ps (field_sets request) (PythonToolBase.interpreter_constraints black)
           (is_default black ''interpreter_constraints''))))]
   \<and> (dflt \<and> requires_python38_or_newer lib
                (create_from_compatibility_fields lib
                   (map BlackFieldSet.interpreter_constraints fs) ps)
                (interpreter_universe ps)
        \<longrightarrow> resolve_runtime lib ps fs declared dflt =
              create_from_compatibility_fields lib
                (map BlackFieldSet.interpreter_constraints fs) ps)
   \<and> (\<not> (dflt \<and> requires_python38_or_newer lib
                   (create_from_compatibility_fields lib
                      (map BlackFieldSet.interpreter_constraints fs) ps)
                   (interpreter_universe ps))
        \<longrightarrow> resolve_runtime lib ps fs declared dflt = declared)
   \<and> (\<not> dflt \<longrightarrow> resolve_runtime lib ps fs declared dflt = declared)"
  using tool_requests_setup_black [of eng lib request black ps]
  by (simp add: resolve_runtime_def Let_def)

theorem black_runtime_resolution_witness:
  "filter is_tool_request
     (snd (setup_black test_engine test_lib
             \<lparr>field_sets = test_black_field_sets, prior_formatter_result = None\<rparr>
             test_black test_python_setup))
     = [Get_VenvPex (PexRequest ''black'' [''CPython>=3.8''])]
   \<and> resolve_runtime test_lib test_python_setup test_black_field_sets [''CPython>=3.6.2''] True
     = [''CPython>=3.8'']
   \<and> resolve_runtime test_lib test_python_setup test_black_field_sets [''CPython>=3.6.2''] False
     = [''CPython>=3.6.2'']
   \<and> filter is_tool_request
     (snd (setup_black test_engine test_lib
             \<lparr>field_sets = test_black_field_sets, prior_formatter_result = None\<rparr>
             (test_black\<lparr>is_default := (\<lambda>name. False)\<rparr>) test_python_setup))
     = [Get_VenvPex (PexRequest ''black'' [''CPython>=3.6.2''])]"
proof -
  have unit: "create_from_compatibility_fields test_lib
                (map BlackFieldSet.interpreter_constraints test_black_field_sets) test_python_setup
              = [''CPython>=3.8'']"
    by (simp add: test_defs)
  have req: "requires_python38_or_newer test_lib [''CPython>=3.8'']
               (interpreter_universe test_python_setup)"
    by (simp add: test_defs)
  note th = black_runtime_resolution
    [where lib = test_lib and ps = test_python_setup and fs = test_black_field_sets
       and declared = "[''CPython>=3.6.2'']" and eng = test_engine]
  from th [where dflt = True
             and request = "\<lparr>field_sets = test_black_field_sets, prior_formatter_result = None\<rparr>"
             and black = test_black]
  have a: "filter is_tool_request
     (snd (setup_black test_engine test_lib
             \<lparr>field_sets = test_black_field_sets, prior_formatter_result = None\<rparr>
             test_black test_python_setup))
     = [Get_VenvPex (to_pex_request test_black (Some
         (resolve_runtime test_lib test_python_setup test_black_field_sets
            (PythonToolBase.interpreter_constraints test_black)
            (is_default test_black ''interpreter_constraints''))))]"
    and b: "resolve_runtime test_lib test_python_setup test_black_field_sets
              [''CPython>=3.6.2''] True = [''CPython>=3.8'']"
    using unit req by simp_all
  from th [where dflt = False
             and request = "\<lparr>field_sets = test_black_field_sets, prior_formatter_result = None\<rparr>"
             and black = "test_black\<lparr>is_default := (\<lambda>name. False)\<rparr>"]
  have c: "filter is_tool_request
     (snd (setup_black test_engine test_lib
             \<lparr>field_sets = test_black_field_sets, prior_formatter_result = None\<rparr>
             (test_black\<lparr>is_default := (\<lambda>name. False)\<rparr>) test_python_setup))
     = [Get_VenvPex (to_pex_request test_black (Some
         (resolve_runtime test_lib test_python_setup test_black_field_sets
            (PythonToolBase.interpreter_constraints test_black) False)))]"
    and d: "resolve_runtime test_lib test_python_setup test_black_field_sets
              [''CPython>=3.6.2''] False = [''CPython>=3.6.2'']"
    by (simp_all add: test_black_def)
  have e: "PythonToolBase.interpreter_constraints test_black = [''CPython>=3.6.2'']"
    "is_default test_black ''interpreter_constraints''"
    "\<And>c. to_pex_request test_black (Some c) = PexRequest ''black'' c"
    by (simp_all add: test_black_def)
  from a b c d e show ?thesis by simp
qed

subsection \<open>The snapshot a stage works on\<close>




subsection \<open>The results of the stages of a chain\<close>


text \<open>A skipped first stage hands no snapshot on: the second stage runs as the first.\<close>

lemma chain2_skipped_first:
  assumes "A None = (Inr ra, l1)" and "skipped ra" and "B None = (Inr rb, l2)"
  shows "chain2 A B = (Inr (chain_result ra rb, ra, rb), l1 @ l2)"
  using assms by (simp add: chain2_def bind_def ret_def)







subsection \<open>A process that fails\<close>









lemma test_run_pyupgrade_crashing:
  "run_pyupgrade crashing_engine test_lib
     \<lparr>field_sets = test_pyupgrade_field_sets, prior_formatter_result = None\<rparr>
     test_pyupgrade
   = (Inl (EngineError ''runtime error''),
      [Get_SourceFiles [''src/f.py''],
       Get_VenvPex (PexRequest ''pyupgrade'' [''CPython>=3.6'']),
       Get_FallibleProcessResult
         \<lparr>venv_pex = VenvPex ''pyupgrade.pex'',
          argv = [''--py36-plus'', ''src/f.py''],
          input_digest = Digest ''x=1'', output_files = [''src/f.py''],
          concurrency_available = None,
          description = ''Run pyupgrade on 1 file.'', level = DEBUG\<rparr>])"
  by (simp add: test_defs rule_defs Let_def)




subsection \<open>The process specification\<close>

text \<open>
  C6, as the code has it. The one process specification \<^verbatim>\<open>setup_black\<close> builds has as
  argument vector the optional \<^verbatim>\<open>--config\<close> flag and path, the fixed flags
  \<^verbatim>\<open>-W {pants_concurrency}\<close>, the user's extra arguments and the files of the chosen
  snapshot, in this order; its declared output files are those files, its concurrency
  hint is the number of field sets, and its input digest is the merge of the chosen
  snapshot's digest with the configuration's. The one \<^verbatim>\<open>run_pyupgrade\<close> builds has an
  argument vector that starts with the user's extra arguments, the files of the chosen
  snapshot as declared output files, the digest of the chosen snapshot itself as input,
  and no concurrency hint.
\<close>

theorem process_spec_assembly:
  "(setup_black eng lib request black ps = (Inr s, log) \<longrightarrow>
      (\<exists>black_pex cf merged.
         get_ConfigFiles eng (config_request black (dirs (Setup.original_snapshot s))) = Inr cf
       \<and> get_Digest eng [digest (Setup.original_snapshot s), digest (ConfigFiles.snapshot cf)]
           = Inr merged
       \<and> process_specs log =
           [\<lparr>venv_pex = black_pex,
             argv = (case config black of
                       None \<Rightarrow> [] | Some c \<Rightarrow> if c = [] then [] else [''--config'', c])
                    @ [''-W'', ''{pants_concurrency}''] @ args black
                    @ Snapshot.files (Setup.original_snapshot s),
             input_digest = merged,
             output_files = Snapshot.files (Setup.original_snapshot s),
             concurrency_available = Some (length (field_sets request)),
             description =
               ''Run Black on '' @ pluralize lib (length (field_sets request)) ''file'' @ ''.'',
             level = DEBUG\<rparr>]))
   \<and> (run_pyupgrade eng lib request' pyupgrade = (Inr r, log') \<longrightarrow>
      (\<exists>vpp fl.
         process_specs log' = [vpp]
       \<and> argv vpp = args pyupgrade @ fl
       \<and> output_files vpp = Snapshot.files (PyUpgradeResult.original_snapshot r)
       \<and> input_digest vpp = digest (PyUpgradeResult.original_snapshot r)
       \<and> concurrency_available vpp = None))"
proof (intro conjI impI)
  assume a: "setup_black eng lib request black ps = (Inr s, log)"
  show "\<exists>black_pex cf merged.
         get_ConfigFiles eng (config_request black (dirs (Setup.original_snapshot s))) = Inr cf
       \<and> get_Digest eng [digest (Setup.original_snapshot s), digest (ConfigFiles.snapshot cf)]
           = Inr merged
       \<and> process_specs log =
           [\<lparr>venv_pex = black_pex,
             argv = (case config black of
                       None \<Rightarrow> [] | Some c \<Rightarrow> if c = [] then [] else [''--config'', c])
                    @ [''-W'', ''{pants_concurrency}''] @ args black
                    @ Snapshot.files (Setup.original_snapshot s),
             input_digest = merged,
             output_files = Snapshot.files (Setup.original_snapshot s),
             concurrency_available = Some (length (field_sets request)),
             description =
               ''Run Black on '' @ pluralize lib (length (field_sets request)) ''file'' @ ''.'',
             level = DEBUG\<rparr>]"
    by (rule setup_black_Inr [OF a]) (simp only: process_specs.simps, blast)
next
  assume a: "run_pyupgrade eng lib request' pyupgrade = (Inr r, log')"
  show "\<exists>vpp fl.
         process_specs log' = [vpp]
       \<and> argv vpp = args pyupgrade @ fl
       \<and> output_files vpp = Snapshot.files (PyUpgradeResult.original_snapshot r)
       \<and> input_digest vpp = digest (PyUpgradeResult.original_snapshot r)
       \<and> concurrency_available vpp = None"
    by (rule run_pyupgrade_Inr [OF a]) (simp only: process_specs.simps, simp)
qed

theorem process_spec_assembly_witness:
  "process_specs (snd (setup_black test_engine test_lib
      \<lparr>field_sets = test_black_field_sets, prior_formatter_result = Some test_prior\<rparr>
      test_black test_python_setup))
   = [\<lparr>venv_pex = VenvPex ''black.pex'',
       argv = [''--config'', ''pyproject.toml'', ''-W'', ''{pants_concurrency}'',
               ''--quiet'', ''src/f.py''],
       input_digest = Digest ''x = 1;[tool.black];'',
       output_files = [''src/f.py''], concurrency_available = Some 1,
       description = ''Run Black on 1 file.'', level = DEBUG\<rparr>]
   \<and> (\<exists>r log vpp fl.
        run_pyupgrade test_engine test_lib
          \<lparr>field_sets = test_pyupgrade_field_sets, prior_formatter_result = Some test_prior\<rparr>
          test_pyupgrade = (Inr r, log)
      \<and> process_specs log = [vpp]
      \<and> argv vpp = [''--py36-plus''] @ fl
      \<and> output_files vpp = [''src/f.py'']
      \<and> input_digest vpp = Digest ''x = 1''
      \<and> concurrency_available vpp = None)"
proof (intro conjI)
  from process_spec_assembly [THEN conjunct1, rule_format, OF test_setup_black_prior]
  obtain black_pex cf merged where
    "process_specs
       (snd (setup_black test_engine test_lib
          \<lparr>field_sets = test_black_field_sets, prior_formatter_result = Some test_prior\<rparr>
          test_black test_python_setup)) =
     [\<lparr>venv_pex = black_pex,
       argv = (case config test_black of
                 None \<Rightarrow> [] | Some c \<Rightarrow> if c = [] then [] else [''--config'', c])
              @ [''-W'', ''{pants_concurrency}''] @ args test_black @ Snapshot.files test_prior,
       input_digest = merged,
       output_files = Snapshot.files test_prior,
       concurrency_available = Some (length test_black_field_sets),
       description =
         ''Run Black on '' @ pluralize test_lib (length test_black_field_sets) ''file'' @ ''.'',
       level = DEBUG\<rparr>]"
    by (auto simp: test_setup_black_prior)
  then show "process_specs (snd (setup_black test_engine test_lib
      \<lparr>field_sets = test_black_field_sets, prior_formatter_result = Some test_prior\<rparr>
      test_black test_python_setup))
   = [\<lparr>venv_pex = VenvPex ''black.pex'',
       argv = [''--config'', ''pyproject.toml'', ''-W'', ''{pants_concurrency}'',
               ''--quiet'', ''src/f.py''],
       input_digest = Digest ''x = 1;[tool.black];'',
       output_files = [''src/f.py''], concurrency_available = Some 1,
       description = ''Run Black on 1 file.'', level = DEBUG\<rparr>]"
    by (simp add: test_setup_black_prior)
next
  from process_spec_assembly [THEN conjunct2, rule_format, OF test_run_pyupgrade_prior]
  obtain vpp fl where
    "process_specs (snd (run_pyupgrade test_engine test_lib
          \<lparr>field_sets = test_pyupgrade_field_sets, prior_formatter_result = Some test_prior\<rparr>
          test_pyupgrade)) = [vpp]"
    "argv vpp = args test_pyupgrade @ fl"
    "output_files vpp = Snapshot.files test_prior"
    "input_digest vpp = digest test_prior"
    "concurrency_available vpp = None"
    by (auto simp: test_run_pyupgrade_prior)
  then show "\<exists>r log vpp fl.
        run_pyupgrade test_engine test_lib
          \<lparr>field_sets = test_pyupgrade_field_sets, prior_formatter_result = Some test_prior\<rparr>
          test_pyupgrade = (Inr r, log)
      \<and> process_specs log = [vpp]
      \<and> argv vpp = [''--py36-plus''] @ fl
      \<and> output_files vpp = [''src/f.py'']
      \<and> input_digest vpp = Digest ''x = 1''
      \<and> concurrency_available vpp = None"
    by (simp add: test_run_pyupgrade_prior) (simp add: test_prior_def test_pyupgrade_def)
qed

text \<open>
  C6 as stated fails for pyupgrade: for a request of one field set the specification has
  no concurrency hint, and no digest was merged to make its input.
\<close>

theorem pyupgrade_process_spec_counterexample:
  "map concurrency_available
     (process_specs (snd (run_pyupgrade test_engine test_lib
        \<lparr>field_sets = test_pyupgrade_field_sets, prior_formatter_result = None\<rparr>
        test_pyupgrade)))
   \<noteq> [Some (length test_pyupgrade_field_sets)]
   \<and> \<not> list_ex is_merge (snd (run_pyupgrade test_engine test_lib
        \<lparr>field_sets = test_pyupgrade_field_sets, prior_formatter_result = None\<rparr>
        test_pyupgrade))"
  by (simp add: test_run_pyupgrade_fresh is_merge_def)

subsection \<open>Configuration files and the input digest\<close>

lemma run_pyupgrade_no_config:
  "filter is_config_discovery (snd (run_pyupgrade eng lib request pyupgrade)) = []
   \<and> filter is_merge (snd (run_pyupgrade eng lib request pyupgrade)) = []"
  by (simp add: run_pyupgrade_def Let_def snd_bind snd_MultiGet await_VenvPex_def
        await_SourceFiles_def await_FallibleProcessResult_def ret_def
        is_config_discovery_def is_merge_def
      split: sum.splits prod.splits)

text \<open>
  C7, as the code has it. \<^verbatim>\<open>setup_black\<close> discovers configuration files once, for the
  directories of the chosen snapshot, merges once, the chosen snapshot's digest with the
  digest of the configuration snapshot, and gives the merged digest to the process.
  \<^verbatim>\<open>run_pyupgrade\<close> never discovers configuration files and never merges; its process
  gets the digest of the chosen snapshot.
\<close>

theorem config_discovery_and_merge:
  "(setup_black eng lib request black ps = (Inr s, log) \<longrightarrow>
      (\<exists>cf merged vpp.
         filter is_config_discovery log =
           [Get_ConfigFiles (config_request black (dirs (Setup.original_snapshot s)))]
       \<and> get_ConfigFiles eng (config_request black (dirs (Setup.original_snapshot s))) = Inr cf
       \<and> filter is_merge log =
           [Get_Digest [digest (Setup.original_snapshot s), digest (ConfigFiles.snapshot cf)]]
       \<and> get_Digest eng [digest (Setup.original_snapshot s), digest (ConfigFiles.snapshot cf)]
           = Inr merged
       \<and> process_specs log = [vpp]
       \<and> input_digest vpp = merged))
   \<and> filter is_config_discovery (snd (run_pyupgrade eng lib request' pyupgrade)) = []
   \<and> filter is_merge (snd (run_pyupgrade eng lib request' pyupgrade)) = []
   \<and> (run_pyupgrade eng lib request' pyupgrade = (Inr r, log') \<longrightarrow>
      (\<exists>vpp. process_specs log' = [vpp]
           \<and> input_digest vpp = digest (PyUpgradeResult.original_snapshot r)))"
proof (intro conjI impI)
  assume a: "setup_black eng lib request black ps = (Inr s, log)"
  show "\<exists>cf merged vpp.
         filter is_config_discovery log =
           [Get_ConfigFiles (config_request black (dirs (Setup.original_snapshot s)))]
       \<and> get_ConfigFiles eng (config_request black (dirs (Setup.original_snapshot s))) = Inr cf
       \<and> filter is_merge log =
           [Get_Digest [digest (Setup.original_snapshot s), digest (ConfigFiles.snapshot cf)]]
       \<and> get_Digest eng [digest (Setup.original_snapshot s), digest (ConfigFiles.snapshot cf)]
           = Inr merged
       \<and> process_specs log = [vpp]
       \<and> input_digest vpp = merged"
    by (rule setup_black_Inr [OF a])
       (simp only: process_specs.simps, simp add: is_config_discovery_def is_merge_def)
next
  show "filter is_config_discovery (snd (run_pyupgrade eng lib request' pyupgrade)) = []"
    by (simp add: run_pyupgrade_no_config)
next
  show "filter is_merge (snd (run_pyupgrade eng lib request' pyupgrade)) = []"
    by (simp add: run_pyupgrade_no_config)
next
  assume a: "run_pyupgrade eng lib request' pyupgrade = (Inr r, log')"
  show "\<exists>vpp. process_specs log' = [vpp]
           \<and> input_digest vpp = digest (PyUpgradeResult.original_snapshot r)"
    by (rule run_pyupgrade_Inr [OF a]) (simp only: process_specs.simps, simp)
qed

theorem config_discovery_and_merge_witness:
  "(\<exists>s log vpp.
      setup_black test_engine test_lib
        \<lparr>field_sets = test_black_field_sets, prior_formatter_result = Some test_prior\<rparr>
        test_black test_python_setup = (Inr s, log)
    \<and> filter is_config_discovery log =
        [Get_ConfigFiles (ConfigFilesRequest (Some ''pyproject.toml'') [''src/pyproject.toml''])]
    \<and> filter is_merge log = [Get_Digest [Digest ''x = 1'', Digest ''[tool.black]'']]
    \<and> process_specs log = [vpp]
    \<and> input_digest vpp = Digest ''x = 1;[tool.black];'')
   \<and> (\<exists>r log vpp.
      run_pyupgrade test_engine test_lib
        \<lparr>field_sets = test_pyupgrade_field_sets, prior_formatter_result = Some test_prior\<rparr>
        test_pyupgrade = (Inr r, log)
    \<and> filter is_config_discovery log = []
    \<and> filter is_merge log = []
    \<and> process_specs log = [vpp]
    \<and> input_digest vpp = Digest ''x = 1'')"
proof (intro conjI)
  note th = config_discovery_and_merge
    [where eng = test_engine and lib = test_lib and black = test_black
       and ps = test_python_setup and pyupgrade = test_pyupgrade
       and request = "\<lparr>field_sets = test_black_field_sets,
                       prior_formatter_result = Some test_prior\<rparr>"
       and request' = "\<lparr>field_sets = test_pyupgrade_field_sets,
                        prior_formatter_result = Some test_prior\<rparr>"]
  from th [THEN conjunct1, rule_format, OF test_setup_black_prior]
  obtain cf merged vpp where
    "filter is_config_discovery (snd (setup_black test_engine test_lib
        \<lparr>field_sets = test_black_field_sets, prior_formatter_result = Some test_prior\<rparr>
        test_black test_python_setup))
       = [Get_ConfigFiles (config_request test_black (dirs test_prior))]"
    "get_ConfigFiles test_engine (config_request test_black (dirs test_prior)) = Inr cf"
    "filter is_merge (snd (setup_black test_engine test_lib
        \<lparr>field_sets = test_black_field_sets, prior_formatter_result = Some test_prior\<rparr>
        test_black test_python_setup))
       = [Get_Digest [digest test_prior, digest (ConfigFiles.snapshot cf)]]"
    "get_Digest test_engine [digest test_prior, digest (ConfigFiles.snapshot cf)] = Inr merged"
    "process_specs (snd (setup_black test_engine test_lib
        \<lparr>field_sets = test_black_field_sets, prior_formatter_result = Some test_prior\<rparr>
        test_black test_python_setup)) = [vpp]"
    "input_digest vpp = merged"
    by (auto simp: test_setup_black_prior)
  note f = this
  have c1: "config_request test_black (dirs test_prior)
              = ConfigFilesRequest (Some ''pyproject.toml'') [''src/pyproject.toml'']"
    by (simp add: test_black_def test_prior_def)
  from f(2) have c2: "digest (ConfigFiles.snapshot cf) = Digest ''[tool.black]''"
    by (auto simp: test_engine_def)
  have c3: "digest test_prior = Digest ''x = 1''"
    by (simp add: test_prior_def)
  from f(4) have c4: "merged = Digest ''x = 1;[tool.black];''"
    unfolding c2 c3 by (simp add: test_engine_def)
  from f(1,3,5,6) show "\<exists>s log vpp.
      setup_black test_engine test_lib
        \<lparr>field_sets = test_black_field_sets, prior_formatter_result = Some test_prior\<rparr>
        test_black test_python_setup = (Inr s, log)
    \<and> filter is_config_discovery log =
        [Get_ConfigFiles (ConfigFilesRequest (Some ''pyproject.toml'') [''src/pyproject.toml''])]
    \<and> filter is_merge log = [Get_Digest [Digest ''x = 1'', Digest ''[tool.black]'']]
    \<and> process_specs log = [vpp]
    \<and> input_digest vpp = Digest ''x = 1;[tool.black];''"
    unfolding c1 c2 c3 c4
    by (simp add: test_setup_black_prior is_config_discovery_def is_merge_def)
next
  note th = config_discovery_and_merge
    [where eng = test_engine and lib = test_lib and pyupgrade = test_pyupgrade
       and request' = "\<lparr>field_sets = test_pyupgrade_field_sets,
                        prior_formatter_result = Some test_prior\<rparr>"]
  from th [THEN conjunct2, THEN conjunct2, THEN conjunct2, rule_format,
           OF test_run_pyupgrade_prior]
  obtain vpp where
    "process_specs (snd (run_pyupgrade test_engine test_lib
        \<lparr>field_sets = test_pyupgrade_field_sets, prior_formatter_result = Some test_prior\<rparr>
        test_pyupgrade)) = [vpp]"
    "input_digest vpp = digest test_prior"
    by (auto simp: test_run_pyupgrade_prior)
  moreover note th [THEN conjunct2, THEN conjunct1] th [THEN conjunct2, THEN conjunct2, THEN conjunct1]
  ultimately show "\<exists>r log vpp.
      run_pyupgrade test_engine test_lib
        \<lparr>field_sets = test_pyupgrade_field_sets, prior_formatter_result = Some test_prior\<rparr>
        test_pyupgrade = (Inr r, log)
    \<and> filter is_config_discovery log = []
    \<and> filter is_merge log = []
    \<and> process_specs log = [vpp]
    \<and> input_digest vpp = Digest ''x = 1''"
    by (simp add: test_run_pyupgrade_prior) (simp add: test_prior_def)
qed

text \<open>
  C7 as stated fails for pyupgrade: its run issues no request for configuration files and
  no merge, and its process gets the digest of the source snapshot as it is.
\<close>

theorem pyupgrade_config_counterexample:
  "\<not> list_ex is_config_discovery (snd (run_pyupgrade test_engine test_lib
        \<lparr>field_sets = test_pyupgrade_field_sets, prior_formatter_result = None\<rparr>
        test_pyupgrade))
   \<and> \<not> list_ex is_merge (snd (run_pyupgrade test_engine test_lib
        \<lparr>field_sets = test_pyupgrade_field_sets, prior_formatter_result = None\<rparr>
        test_pyupgrade))
   \<and> map input_digest (process_specs (snd (run_pyupgrade test_engine test_lib
        \<lparr>field_sets = test_pyupgrade_field_sets, prior_formatter_result = None\<rparr>
        test_pyupgrade)))
     = [Digest ''x=1'']"
  by (simp add: test_run_pyupgrade_fresh is_config_discovery_def is_merge_def)

subsection \<open>The reported streams\<close>

lemma test_setup_black_fresh:
  "setup_black test_engine test_lib
     \<lparr>field_sets = test_black_field_sets, prior_formatter_result = None\<rparr>
     test_black test_python_setup
   = (Inr \<lparr>process =
             Process [''black.pex'', ''--config'', ''pyproject.toml'', ''-W'',
                      ''{pants_concurrency}'', ''--quiet'', ''src/f.py'']
               (Digest ''x=1;[tool.black];'') [''src/f.py''],
           original_snapshot =
             \<lparr>digest = Digest ''x=1'', files = [''src/f.py''], dirs = [''src'']\<rparr>\<rparr>,
      [Get_SourceFiles [''src/f.py''],
       Get_VenvPex (PexRequest ''black'' [''CPython>=3.8'']),
       Get_ConfigFiles (ConfigFilesRequest (Some ''pyproject.toml'') [''src/pyproject.toml'']),
       Get_Digest [Digest ''x=1'', Digest ''[tool.black]''],
       Get_Process
         \<lparr>venv_pex = VenvPex ''black.pex'',
          argv = [''--config'', ''pyproject.toml'', ''-W'', ''{pants_concurrency}'',
                  ''--quiet'', ''src/f.py''],
          input_digest = Digest ''x=1;[tool.black];'',
          output_files = [''src/f.py''], concurrency_available = Some 1,
          description = ''Run Black on 1 file.'', level = DEBUG\<rparr>])"
  by (simp add: test_defs rule_defs Let_def)


text \<open>
  C8, as the code has it. The stdout and stderr of a \<^verbatim>\<open>FmtResult\<close> that \<^verbatim>\<open>black_fmt\<close> builds
  are \<^verbatim>\<open>strip_v2_chroot_path\<close> of the streams the process captured: text with the sandbox
  prefixes stripped. Those of a \<^verbatim>\<open>FmtResult\<close> that \<^verbatim>\<open>pyupgrade_fmt\<close> builds are the captured
  streams decoded to text, with nothing stripped.
\<close>

theorem reported_streams:
  "(\<not> skip black \<and> black_fmt eng lib request black ps = (Inr res, log) \<longrightarrow>
      (\<exists>s l raw.
         setup_black eng lib request black ps = (Inr s, l)
       \<and> get_FallibleProcessResult eng (Setup.process s) = Inr raw
       \<and> strip_v2_chroot_path lib (ProcessResult.stdout raw) = Inr (FmtResult.stdout res)
       \<and> strip_v2_chroot_path lib (ProcessResult.stderr raw) = Inr (FmtResult.stderr res)))
   \<and> (\<not> skip pyupgrade
      \<and> fmt_PyUpgradeRequest eng lib request' pyupgrade = (Inr res', log') \<longrightarrow>
      (\<exists>r l.
         run_pyupgrade eng lib request' pyupgrade = (Inr r, l)
       \<and> decode lib (ProcessResult.stdout (process_result r)) = Inr (FmtResult.stdout res')
       \<and> decode lib (ProcessResult.stderr (process_result r)) = Inr (FmtResult.stderr res')))"
proof (intro conjI impI)
  assume a: "\<not> skip black \<and> black_fmt eng lib request black ps = (Inr res, log)"
  then have f: "black_fmt eng lib request black ps = (Inr res, log)" and n: "\<not> skip black"
    by simp_all
  show "\<exists>s l raw.
         setup_black eng lib request black ps = (Inr s, l)
       \<and> get_FallibleProcessResult eng (Setup.process s) = Inr raw
       \<and> strip_v2_chroot_path lib (ProcessResult.stdout raw) = Inr (FmtResult.stdout res)
       \<and> strip_v2_chroot_path lib (ProcessResult.stderr raw) = Inr (FmtResult.stderr res)"
    by (rule black_fmt_Inr [OF f n]) blast
next
  assume a: "\<not> skip pyupgrade
      \<and> fmt_PyUpgradeRequest eng lib request' pyupgrade = (Inr res', log')"
  then obtain r l l' where r: "run_pyupgrade eng lib request' pyupgrade = (Inr r, l)"
    and f: "pyupgrade_fmt eng lib r pyupgrade = (Inr res', l')"
    by (auto elim: fmt_PyUpgradeRequest_Inr)
  from pyupgrade_fmt_Inr [OF f] a r
  show "\<exists>r l.
         run_pyupgrade eng lib request' pyupgrade = (Inr r, l)
       \<and> decode lib (ProcessResult.stdout (process_result r)) = Inr (FmtResult.stdout res')
       \<and> decode lib (ProcessResult.stderr (process_result r)) = Inr (FmtResult.stderr res')"
    by blast
qed

theorem reported_streams_witness:
  "(\<exists>res log s l raw.
      black_fmt test_engine test_lib
        \<lparr>field_sets = test_black_field_sets, prior_formatter_result = None\<rparr>
        test_black test_python_setup = (Inr res, log)
    \<and> setup_black test_engine test_lib
        \<lparr>field_sets = test_black_field_sets, prior_formatter_result = None\<rparr>
        test_black test_python_setup = (Inr s, l)
    \<and> get_FallibleProcessResult test_engine (Setup.process s) = Inr raw
    \<and> strip_v2_chroot_path test_lib (ProcessResult.stderr raw) = Inr (FmtResult.stderr res)
    \<and> ProcessResult.stderr raw = ''reformatted /tmp/process-execution7/src/f.py''
    \<and> FmtResult.stderr res = ''reformatted src/f.py'')
   \<and> (\<exists>res log r l.
      fmt_PyUpgradeRequest test_engine test_lib
        \<lparr>field_sets = test_pyupgrade_field_sets, prior_formatter_result = None\<rparr>
        test_pyupgrade = (Inr res, log)
    \<and> run_pyupgrade test_engine test_lib
        \<lparr>field_sets = test_pyupgrade_field_sets, prior_formatter_result = None\<rparr>
        test_pyupgrade = (Inr r, l)
    \<and> decode test_lib (ProcessResult.stdout (process_result r)) = Inr (FmtResult.stdout res)
    \<and> FmtResult.stdout res = ''Rewriting /tmp/process-execution7/src/f.py'')"
proof (intro conjI)
  have nb: "\<not> skip test_black" and np: "\<not> skip test_pyupgrade"
    by (simp_all add: test_defs)
  from reported_streams [THEN conjunct1, rule_format, OF conjI [OF nb test_black_fmt_fresh]]
  obtain s l and raw :: FallibleProcessResult where 1:
    "setup_black test_engine test_lib
        \<lparr>field_sets = test_black_field_sets, prior_formatter_result = None\<rparr>
        test_black test_python_setup = (Inr s, l)"
    "get_FallibleProcessResult test_engine (Setup.process s) = Inr raw"
    "strip_v2_chroot_path test_lib (ProcessResult.stderr raw) = Inr ''reformatted src/f.py''"
    by auto
  from 1(1) have "Setup.process s =
      Process [''black.pex'', ''--config'', ''pyproject.toml'', ''-W'',
               ''{pants_concurrency}'', ''--quiet'', ''src/f.py'']
        (Digest ''x=1;[tool.black];'') [''src/f.py'']"
    by (auto simp: test_setup_black_fresh)
  with 1(2) have "ProcessResult.stderr raw = ''reformatted /tmp/process-execution7/src/f.py''"
    by (auto simp: test_engine_def)
  with 1 show "\<exists>res log s l raw.
      black_fmt test_engine test_lib
        \<lparr>field_sets = test_black_field_sets, prior_formatter_result = None\<rparr>
        test_black test_python_setup = (Inr res, log)
    \<and> setup_black test_engine test_lib
        \<lparr>field_sets = test_black_field_sets, prior_formatter_result = None\<rparr>
        test_black test_python_setup = (Inr s, l)
    \<and> get_FallibleProcessResult test_engine (Setup.process s) = Inr raw
    \<and> strip_v2_chroot_path test_lib (ProcessResult.stderr raw) = Inr (FmtResult.stderr res)
    \<and> ProcessResult.stderr raw = ''reformatted /tmp/process-execution7/src/f.py''
    \<and> FmtResult.stderr res = ''reformatted src/f.py''"
    by (simp add: test_black_fmt_fresh)
next
  have np: "\<not> skip test_pyupgrade"
    by (simp add: test_defs)
  from reported_streams [THEN conjunct2, rule_format, OF conjI [OF np test_fmt_pyupgrade_fresh]]
  obtain r l where
    "run_pyupgrade test_engine test_lib
        \<lparr>field_sets = test_pyupgrade_field_sets, prior_formatter_result = None\<rparr>
        test_pyupgrade = (Inr r, l)"
    "decode test_lib (ProcessResult.stdout (process_result r))
       = Inr ''Rewriting /tmp/process-execution7/src/f.py''"
    by auto
  then show "\<exists>res log r l.
      fmt_PyUpgradeRequest test_engine test_lib
        \<lparr>field_sets = test_pyupgrade_field_sets, prior_formatter_result = None\<rparr>
        test_pyupgrade = (Inr res, log)
    \<and> run_pyupgrade test_engine test_lib
        \<lparr>field_sets = test_pyupgrade_field_sets, prior_formatter_result = None\<rparr>
        test_pyupgrade = (Inr r, l)
    \<and> decode test_lib (ProcessResult.stdout (process_result r)) = Inr (FmtResult.stdout res)
    \<and> FmtResult.stdout res = ''Rewriting /tmp/process-execution7/src/f.py''"
    by (simp add: test_fmt_pyupgrade_fresh)
qed

text \<open>
  C8 as stated fails for pyupgrade: the stdout it reports still has the sandbox directory
  that \<^verbatim>\<open>strip_v2_chroot_path\<close> removes from the same bytes.
\<close>

theorem pyupgrade_streams_counterexample:
  "map_sum id FmtResult.stdout
     (fst (fmt_PyUpgradeRequest test_engine test_lib
        \<lparr>field_sets = test_pyupgrade_field_sets, prior_formatter_result = None\<rparr>
        test_pyupgrade))
     = Inr ''Rewriting /tmp/process-execution7/src/f.py''
   \<and> strip_v2_chroot_path test_lib ''Rewriting /tmp/process-execution7/src/f.py''
     = Inr ''Rewriting src/f.py''
   \<and> map_sum id FmtResult.stdout
     (fst (fmt_PyUpgradeRequest test_engine test_lib
        \<lparr>field_sets = test_pyupgrade_field_sets, prior_formatter_result = None\<rparr>
        test_pyupgrade))
     \<noteq> strip_v2_chroot_path test_lib ''Rewriting /tmp/process-execution7/src/f.py''"
  by (simp add: test_fmt_pyupgrade_fresh) (simp add: test_defs)


end
